theory Spec2Isabelle
  imports Complex_Main "HOL-Library.Char_ord" "HOL-Library.List_Lexorder"
begin

section \<open>JavaScript values used by the two stock applications\<close>

text \<open>
  A JavaScript number is a binary64 value. The model keeps the three non-finite values
  apart and stores a finite value as the exact rational it was read from; rounding of a
  finite value to the nearest binary64 is not modelled (no function below depends on it).
  A string is a list of code units below 256. \<open>undefined\<close> is \<open>None\<close> of
  \<open>json option\<close>; \<open>null\<close> is \<open>JNull\<close>. An object is the list of its own
  properties in enumeration order.
\<close>

datatype number = NaN | PosInfinity | NegInfinity | Num rat

datatype json =
    JNull
  | JBool bool
  | JNumber number
  | JString string
  | JArray "json list"
  | JObject "(string \<times> json) list"

datatype error =
    AlphaVantageError string
  | Error string
  | TypeError string
  | SyntaxError string
  | RangeError string
  | ZodError string

fun message :: "error \<Rightarrow> string" where
  "message (AlphaVantageError m) = m"
| "message (Error m) = m"
| "message (TypeError m) = m"
| "message (SyntaxError m) = m"
| "message (RangeError m) = m"
| "message (ZodError m) = m"

text \<open>\<open>error instanceof AlphaVantageError\<close>\<close>

fun instanceofAlphaVantageError :: "error \<Rightarrow> bool" where
  "instanceofAlphaVantageError (AlphaVantageError m) = True"
| "instanceofAlphaVantageError e = False"

text \<open>\<open>typeof v\<close> and \<open>!v\<close>.\<close>

fun typeof :: "json option \<Rightarrow> string" where
  "typeof None = ''undefined''"
| "typeof (Some JNull) = ''object''"
| "typeof (Some (JBool b)) = ''boolean''"
| "typeof (Some (JNumber n)) = ''number''"
| "typeof (Some (JString s)) = ''string''"
| "typeof (Some (JArray vs)) = ''object''"
| "typeof (Some (JObject kvs)) = ''object''"

fun falsy :: "json option \<Rightarrow> bool" where
  "falsy None = True"
| "falsy (Some JNull) = True"
| "falsy (Some (JBool b)) = (\<not> b)"
| "falsy (Some (JNumber n)) = (n = NaN \<or> n = Num 0)"
| "falsy (Some (JString s)) = (s = [])"
| "falsy (Some (JArray vs)) = False"
| "falsy (Some (JObject kvs)) = False"

text \<open>
  The property read \<open>v[k]\<close>, for the property names this program reads (none of them is
  an array index, \<open>length\<close> or a name of a prototype): it throws on \<open>undefined\<close> and
  on \<open>null\<close>, looks the key up in an object and is \<open>undefined\<close> on every other value.
\<close>

fun property :: "json option \<Rightarrow> string \<Rightarrow> error + json option" where
  "property None k = Inl (TypeError ''Cannot read properties of undefined'')"
| "property (Some JNull) k = Inl (TypeError ''Cannot read properties of null'')"
| "property (Some (JObject kvs)) k = Inr (map_of kvs k)"
| "property (Some v) k = Inr None"

text \<open>
  \<open>k in v\<close>, for the same property names: a \<open>TypeError\<close> unless \<open>v\<close> is an object or
  an array.
\<close>

fun in_operator :: "string \<Rightarrow> json \<Rightarrow> error + bool" where
  "in_operator k (JObject kvs) = Inr (map_of kvs k \<noteq> None)"
| "in_operator k (JArray vs) = Inr False"
| "in_operator k v = Inl (TypeError ''Cannot use the in operator on a primitive value'')"

text \<open>The decimal text of a natural number (\<open>String(n)\<close>, and a number in a template).\<close>

function string_of_nat :: "nat \<Rightarrow> string" where
  "string_of_nat n =
     (if n < 10 then [char_of (48 + n)]
      else string_of_nat (n div 10) @ [char_of (48 + n mod 10)])"
  by pat_completeness auto
termination
  by (relation "measure id") auto

declare string_of_nat.simps [simp del]

text \<open>\<open>Object.entries\<close>: the own properties of an object, the indexed elements of an array.\<close>

fun Object_entries :: "json \<Rightarrow> (string \<times> json) list" where
  "Object_entries (JObject kvs) = kvs"
| "Object_entries (JArray vs) = zip (map string_of_nat [0..<length vs]) vs"
| "Object_entries v = []"

text \<open>
  \<open>Array.prototype.sort\<close> with a comparator. The language fixes the result only through
  the comparator's answers; the model is the stable insertion sort, which every conforming
  sort agrees with when the comparator is a consistent order.
\<close>

fun insert_by :: "('a \<Rightarrow> 'a \<Rightarrow> int) \<Rightarrow> 'a \<Rightarrow> 'a list \<Rightarrow> 'a list" where
  "insert_by cmp x [] = [x]"
| "insert_by cmp x (y # ys) = (if cmp x y \<le> 0 then x # y # ys else y # insert_by cmp x ys)"

definition sort_by :: "('a \<Rightarrow> 'a \<Rightarrow> int) \<Rightarrow> 'a list \<Rightarrow> 'a list" where
  "sort_by cmp xs = foldr (insert_by cmp) xs []"

text \<open>An object literal with a spread, \<open>{...base, k: v}\<close>: a key keeps its first place.\<close>

fun assign :: "(string \<times> 'a) list \<Rightarrow> string \<Rightarrow> 'a \<Rightarrow> (string \<times> 'a) list" where
  "assign [] k v = [(k, v)]"
| "assign ((k', v') # kvs) k v =
     (if k' = k then (k, v) # kvs else (k', v') # assign kvs k v)"

definition spread :: "(string \<times> 'a) list \<Rightarrow> (string \<times> 'a) list \<Rightarrow> (string \<times> 'a) list" where
  "spread base extra = foldl (\<lambda>acc kv. assign acc (fst kv) (snd kv)) base extra"

subsection \<open>Strings and the number parsers of the platform\<close>

definition isWhiteSpace :: "char \<Rightarrow> bool" where
  "isWhiteSpace c = ((of_char c :: nat) \<in> {9, 10, 11, 12, 13, 32, 160})"

definition trimStart :: "string \<Rightarrow> string" where
  "trimStart s = dropWhile isWhiteSpace s"

definition trim :: "string \<Rightarrow> string" where
  "trim s = rev (dropWhile isWhiteSpace (rev (dropWhile isWhiteSpace s)))"

definition isDigit :: "char \<Rightarrow> bool" where
  "isDigit c = (48 \<le> (of_char c :: nat) \<and> (of_char c :: nat) \<le> 57)"

definition digitsValue :: "string \<Rightarrow> nat" where
  "digitsValue ds = foldl (\<lambda>a c. 10 * a + ((of_char c :: nat) - 48)) 0 ds"

text \<open>
  A decimal value becomes a number: at or beyond \<open>2^1024 - 2^970\<close> in magnitude it
  rounds to an infinity, below it stays finite.
\<close>

definition toDouble :: "rat \<Rightarrow> number" where
  "toDouble v =
     (if 2 ^ 1024 - 2 ^ 970 \<le> \<bar>v\<bar> then (if v < 0 then NegInfinity else PosInfinity)
      else Num v)"

definition pow10 :: "int \<Rightarrow> rat" where
  "pow10 k = (if 0 \<le> k then 10 ^ nat k else 1 / 10 ^ nat (- k))"

fun readSign :: "string \<Rightarrow> bool \<times> string" where
  "readSign [] = (False, [])"
| "readSign (c # cs) =
     (if c = CHR ''-'' then (True, cs)
      else if c = CHR ''+'' then (False, cs)
      else (False, c # cs))"

definition readExponent :: "string \<Rightarrow> int" where
  "readExponent s =
     (case s of
        [] \<Rightarrow> 0
      | c # cs \<Rightarrow>
          if c = CHR ''e'' \<or> c = CHR ''E'' then
            (let (neg, r) = readSign cs; ds = takeWhile isDigit r
             in if ds = [] then 0
                else if neg then - int (digitsValue ds) else int (digitsValue ds))
          else 0)"

text \<open>
  \<open>Number.parseFloat\<close>: leading white space is skipped, the longest prefix that is a
  decimal literal (sign, \<open>Infinity\<close> or digits with an optional fraction and exponent)
  is read, and the rest is ignored; without such a prefix the result is \<open>NaN\<close>.
\<close>

definition parseFloat :: "string \<Rightarrow> number" where
  "parseFloat input =
     (let (neg, s) = readSign (trimStart input) in
      if take 8 s = ''Infinity'' then (if neg then NegInfinity else PosInfinity)
      else
        (let ip = takeWhile isDigit s;
             r1 = dropWhile isDigit s;
             (fp, r2) = (case r1 of
                           [] \<Rightarrow> ([], r1)
                         | c # t \<Rightarrow>
                             if c = CHR ''.'' then (takeWhile isDigit t, dropWhile isDigit t)
                             else ([], r1))
         in if ip = [] \<and> fp = [] then NaN
            else
              (let m = of_nat (digitsValue (ip @ fp)) * pow10 (readExponent r2 - int (length fp))
               in toDouble (if neg then - m else m))))"

text \<open>\<open>Number.parseInt(s, 10)\<close>: white space, a sign and the longest run of digits.\<close>

definition parseInt10 :: "string \<Rightarrow> number" where
  "parseInt10 input =
     (let (neg, s) = readSign (trimStart input); ds = takeWhile isDigit s
      in if ds = [] then NaN
         else toDouble (if neg then - of_nat (digitsValue ds) else of_nat (digitsValue ds)))"

fun isFinite :: "number \<Rightarrow> bool" where
  "isFinite (Num v) = True"
| "isFinite n = False"

section \<open>The server application: field parsers (alphaVantage.ts)\<close>

definition parseNumber :: "json option \<Rightarrow> number option" where
  "parseNumber value =
     (case value of
        Some (JString s) \<Rightarrow>
          if length (trim s) = 0 then None
          else
            (let sanitized = filter (\<lambda>c. c \<noteq> CHR '','') s;
                 numeric = parseFloat sanitized
             in if isFinite numeric then Some numeric else None)
      | _ \<Rightarrow> None)"

definition parsePercent :: "json option \<Rightarrow> number option" where
  "parsePercent value =
     (case value of
        Some (JString s) \<Rightarrow> parseNumber (Some (JString (remove1 (CHR ''%'') s)))
      | _ \<Rightarrow> None)"

definition parseInteger :: "json option \<Rightarrow> number option" where
  "parseInteger value =
     (case value of
        Some (JString s) \<Rightarrow>
          if length (trim s) = 0 then None
          else
            (let sanitized = filter (\<lambda>c. c \<noteq> CHR '','') s;
                 numeric = parseInt10 sanitized
             in if isFinite numeric then Some numeric else None)
      | _ \<Rightarrow> None)"

definition parseNullableString :: "json option \<Rightarrow> string option" where
  "parseNullableString value =
     (case value of
        Some (JString s) \<Rightarrow> (let trimmed = trim s in if length trimmed = 0 then None else Some trimmed)
      | _ \<Rightarrow> None)"

definition requireNumber :: "json option \<Rightarrow> string \<Rightarrow> string \<Rightarrow> error + number" where
  "requireNumber value field symbol =
     (case parseNumber value of
        None \<Rightarrow>
          Inl (AlphaVantageError
                (''Missing numeric '' @ [CHR 0x22] @ field @ [CHR 0x22]
                 @ '' in Alpha Vantage response for '' @ symbol @ ''.''))
      | Some parsed \<Rightarrow> Inr parsed)"

definition requireDate :: "json option \<Rightarrow> string \<Rightarrow> error + string" where
  "requireDate value symbol =
     (case value of
        Some (JString s) \<Rightarrow>
          if length (trim s) = 0 then
            Inl (AlphaVantageError
                  (''Missing date value in Alpha Vantage response for '' @ symbol @ ''.''))
          else Inr s
      | _ \<Rightarrow>
          Inl (AlphaVantageError
                (''Missing date value in Alpha Vantage response for '' @ symbol @ ''.'')))"

section \<open>The server application: disk cache and upstream client\<close>

text \<open>
  What the code takes from its surroundings is a parameter: the build flag of the disk
  cache, the API key, the SHA-256 digest that names a cache file, the collation behind
  \<open>localeCompare\<close>, and the upstream service, which answers a request (its query
  parameters) knowing the requests made before it. A file holds the value its text parses
  to, or \<open>None\<close> when the text is not JSON. File-system calls other than reading a
  missing file succeed, and the clock does not advance inside one call.
\<close>

record response =
  ok :: bool
  status :: nat
  statusText :: string
  body :: "json option"

type_synonym request = "(string \<times> string) list"

record platform =
  DISK_CACHE_ENABLED :: bool
  ALPHA_VANTAGE_API_KEY :: string
  sha256_hex :: "string \<Rightarrow> string"
  localeCompare :: "string \<Rightarrow> string \<Rightarrow> int"
  upstream :: "request list \<Rightarrow> request \<Rightarrow> error + response"

record world =
  now :: int
  files :: "string \<Rightarrow> json option option"
  requests :: "request list"

definition DAY_IN_SECONDS :: int where
  "DAY_IN_SECONDS = 60 * 60 * 24"

definition DISK_CACHE_TTL_MS :: int where
  "DISK_CACHE_TTL_MS = DAY_IN_SECONDS * 1000"

record DiskCacheHit =
  hit_data :: "json option"
  hit_timestamp :: rat

definition getCacheFilePath :: "platform \<Rightarrow> string \<Rightarrow> string" where
  "getCacheFilePath pf key = sha256_hex pf key @ ''.json''"

text \<open>
  \<open>JSON.parse (JSON.stringify v)\<close>: a number that is not finite is written as
  \<open>null\<close>; everything else comes back as it was.
\<close>

fun stringify_parse :: "json \<Rightarrow> json" where
  "stringify_parse (JNumber n) = (if isFinite n then JNumber n else JNull)"
| "stringify_parse (JArray vs) = JArray (map stringify_parse vs)"
| "stringify_parse (JObject kvs) = JObject (map (\<lambda>kv. (fst kv, stringify_parse (snd kv))) kvs)"
| "stringify_parse v = v"

definition readFromDiskCache ::
  "platform \<Rightarrow> string \<Rightarrow> int \<Rightarrow> world \<Rightarrow> DiskCacheHit option \<times> world" where
  "readFromDiskCache pf key ttlMs w =
     (if \<not> DISK_CACHE_ENABLED pf then (None, w)
      else
        (let filePath = getCacheFilePath pf key in
         case files w filePath of
           None \<Rightarrow> (None, w)
         | Some None \<Rightarrow> (None, w)
         | Some (Some parsed) \<Rightarrow>
             (case property (Some parsed) ''timestamp'' of
                Inl e \<Rightarrow> (None, w)
              | Inr (Some (JNumber (Num t))) \<Rightarrow>
                  (let age = of_int (now w) - t in
                   if age \<le> of_int ttlMs then
                     (case property (Some parsed) ''data'' of
                        Inl e \<Rightarrow> (None, w)
                      | Inr d \<Rightarrow> (Some \<lparr>hit_data = d, hit_timestamp = t\<rparr>, w))
                   else (None, w\<lparr>files := (files w)(filePath := None)\<rparr>))
              | Inr other \<Rightarrow> (None, w\<lparr>files := (files w)(filePath := None)\<rparr>))))"

definition writeToDiskCache :: "platform \<Rightarrow> string \<Rightarrow> json \<Rightarrow> world \<Rightarrow> world" where
  "writeToDiskCache pf key v w =
     (if \<not> DISK_CACHE_ENABLED pf then w
      else
        (let filePath = getCacheFilePath pf key;
             payload = JObject [(''timestamp'', JNumber (Num (of_int (now w)))), (''data'', v)]
         in w\<lparr>files := (files w)(filePath := Some (Some (stringify_parse payload)))\<rparr>))"

text \<open>
  \<open>new Date(t).toISOString()\<close>: the text of a time value. The model keeps the time value
  (milliseconds, truncated) in place of its text; beyond the range of dates the call
  throws.
\<close>

datatype isoTime = ISO int

definition toISOString :: "rat \<Rightarrow> error + isoTime" where
  "toISOString t =
     (if \<bar>t\<bar> \<le> 8640000000000000 then Inr (ISO (if t < 0 then - \<lfloor>- t\<rfloor> else \<lfloor>t\<rfloor>))
      else Inl (RangeError ''Invalid time value''))"

text \<open>\<open>JSON.stringify\<close> of a string and of the list of sorted parameter pairs.\<close>

definition hexDigit :: "nat \<Rightarrow> char" where
  "hexDigit n = ''0123456789abcdef'' ! (n mod 16)"

definition quoteChar :: "char \<Rightarrow> string" where
  "quoteChar c =
     (if c = CHR 0x22 then [CHR 0x5C, CHR 0x22]
      else if c = CHR 0x5C then [CHR 0x5C, CHR 0x5C]
      else if c = CHR 0x08 then [CHR 0x5C, CHR ''b'']
      else if c = CHR 0x0C then [CHR 0x5C, CHR ''f'']
      else if c = CHR 0x0A then [CHR 0x5C, CHR ''n'']
      else if c = CHR 0x0D then [CHR 0x5C, CHR ''r'']
      else if c = CHR 0x09 then [CHR 0x5C, CHR ''t'']
      else if (of_char c :: nat) < 32 then
        [CHR 0x5C, CHR ''u'', CHR ''0'', CHR ''0'',
         hexDigit ((of_char c :: nat) div 16), hexDigit (of_char c :: nat)]
      else [c])"

definition quoteJSONString :: "string \<Rightarrow> string" where
  "quoteJSONString s = [CHR 0x22] @ concat (map quoteChar s) @ [CHR 0x22]"

fun joinWith :: "string \<Rightarrow> string list \<Rightarrow> string" where
  "joinWith sep [] = []"
| "joinWith sep [x] = x"
| "joinWith sep (x # y # ys) = x @ sep @ joinWith sep (y # ys)"

definition JSON_stringify_pairs :: "(string \<times> string) list \<Rightarrow> string" where
  "JSON_stringify_pairs ps =
     ''['' @ joinWith '','' (map (\<lambda>kv. ''['' @ quoteJSONString (fst kv) @ '','' @ quoteJSONString (snd kv) @ '']'') ps)
     @ '']''"

text \<open>The first statements of \<open>fetchAlphaVantage\<close>: the cache key of a parameter object.\<close>

definition cacheKeyOf :: "platform \<Rightarrow> (string \<times> string) list \<Rightarrow> string" where
  "cacheKeyOf pf params =
     (let sortedParams = sort_by (\<lambda>a b. localeCompare pf (fst a) (fst b)) params
      in ''alpha-vantage:'' @ JSON_stringify_pairs sortedParams)"

text \<open>\<open>typeof v === "string" && v.length > 0\<close>, with the string it holds for.\<close>

fun nonEmptyString :: "json option \<Rightarrow> string option" where
  "nonEmptyString (Some (JString s)) = (if length s > 0 then Some s else None)"
| "nonEmptyString v = None"

record 'a CachedResult =
  data :: 'a
  cachedAt :: isoTime

definition fetchAlphaVantage ::
  "platform \<Rightarrow> (string \<times> string) list \<Rightarrow> world \<Rightarrow> (error + json option CachedResult) \<times> world" where
  "fetchAlphaVantage pf params w =
     (let cacheKey = cacheKeyOf pf params;
          (cached, w1) = readFromDiskCache pf cacheKey DISK_CACHE_TTL_MS w;
          (loaded, w2) =
            (case cached of
               Some hit \<Rightarrow>
                 (case toISOString (hit_timestamp hit) of
                    Inl e \<Rightarrow> (Inl e, w1)
                  | Inr stamp \<Rightarrow> (Inr (hit_data hit, stamp), w1))
             | None \<Rightarrow>
                 (let searchParams =
                        spread [(''datatype'', ''json''), (''apikey'', ALPHA_VANTAGE_API_KEY pf)] params;
                      w' = w1\<lparr>requests := requests w1 @ [searchParams]\<rparr>
                  in case upstream pf (requests w1) searchParams of
                       Inl e \<Rightarrow> (Inl e, w')
                     | Inr response \<Rightarrow>
                         if \<not> ok response then
                           (Inl (AlphaVantageError
                                  (''Alpha Vantage responded with '' @ string_of_nat (status response)
                                   @ '': '' @ statusText response)), w')
                         else
                           (case body response of
                              None \<Rightarrow> (Inl (SyntaxError ''Unexpected token in JSON''), w')
                            | Some payload \<Rightarrow>
                                (Inr (Some payload, ISO (now w')),
                                 writeToDiskCache pf cacheKey payload w'))))
      in case loaded of
           Inl e \<Rightarrow> (Inl e, w2)
         | Inr (payload, stamp) \<Rightarrow>
             (case property payload ''Note'' of
                Inl e \<Rightarrow> (Inl e, w2)
              | Inr note \<Rightarrow>
                  (case nonEmptyString note of
                     Some m \<Rightarrow> (Inl (AlphaVantageError m), w2)
                   | None \<Rightarrow>
                       (case property payload ''Error Message'' of
                          Inl e \<Rightarrow> (Inl e, w2)
                        | Inr errorMessage \<Rightarrow>
                            (case nonEmptyString errorMessage of
                               Some m \<Rightarrow> (Inl (AlphaVantageError m), w2)
                             | None \<Rightarrow>
                                 (case property payload ''Information'' of
                                    Inl e \<Rightarrow> (Inl e, w2)
                                  | Inr informationMessage \<Rightarrow>
                                      (case nonEmptyString informationMessage of
                                         Some m \<Rightarrow> (Inl (AlphaVantageError m), w2)
                                       | None \<Rightarrow>
                                           (Inr \<lparr>data = payload, cachedAt = stamp\<rparr>, w2))))))))"

section \<open>The server application: normalizers (alphaVantage.ts)\<close>

text \<open>A thrown error ends the evaluation of what follows it.\<close>

definition bindE :: "'e + 'a \<Rightarrow> ('a \<Rightarrow> 'e + 'b) \<Rightarrow> 'e + 'b" where
  "bindE r f = (case r of Inl e \<Rightarrow> Inl e | Inr x \<Rightarrow> f x)"

fun mapE :: "('a \<Rightarrow> 'e + 'b) \<Rightarrow> 'a list \<Rightarrow> 'e + 'b list" where
  "mapE f [] = Inr []"
| "mapE f (x # xs) = bindE (f x) (\<lambda>y. bindE (mapE f xs) (\<lambda>ys. Inr (y # ys)))"

record StockQuote =
  symbol :: string
  "open" :: number
  high :: number
  low :: number
  price :: number
  previousClose :: number
  change :: number
  changePercent :: number
  latestTradingDay :: string
  volume :: "number option"

text \<open>
  \<open>getGlobalQuoteInternal\<close> after its \<open>await\<close>: the payload and the time it was cached
  at become a quote. The fields are evaluated in the order of the object literal.
\<close>

definition normalizeGlobalQuote ::
  "string \<Rightarrow> json option \<Rightarrow> isoTime \<Rightarrow> error + StockQuote CachedResult" where
  "normalizeGlobalQuote ticker payload stamp =
     bindE (property payload ''Global Quote'') (\<lambda>raw.
       if falsy raw \<or> typeof raw \<noteq> ''object'' then
         Inl (AlphaVantageError (''Unexpected GLOBAL_QUOTE response shape for '' @ ticker @ ''.''))
       else
         bindE (property raw ''02. open'') (\<lambda>v2.
         bindE (requireNumber v2 ''open'' ticker) (\<lambda>openV.
         bindE (property raw ''03. high'') (\<lambda>v3.
         bindE (requireNumber v3 ''high'' ticker) (\<lambda>highV.
         bindE (property raw ''04. low'') (\<lambda>v4.
         bindE (requireNumber v4 ''low'' ticker) (\<lambda>lowV.
         bindE (property raw ''05. price'') (\<lambda>v5.
         bindE (requireNumber v5 ''price'' ticker) (\<lambda>priceV.
         bindE (property raw ''08. previous close'') (\<lambda>v8.
         bindE (requireNumber v8 ''previous close'' ticker) (\<lambda>previousCloseV.
         bindE (property raw ''09. change'') (\<lambda>v9.
         bindE (requireNumber v9 ''change'' ticker) (\<lambda>changeV.
         bindE (property raw ''10. change percent'') (\<lambda>v10.
         bindE (case parsePercent v10 of
                  None \<Rightarrow>
                    Inl (AlphaVantageError
                          (''Missing change percent in Alpha Vantage response for '' @ ticker @ ''.''))
                | Some parsed \<Rightarrow> Inr parsed) (\<lambda>changePercentV.
         bindE (property raw ''07. latest trading day'') (\<lambda>v7.
         bindE (requireDate v7 ticker) (\<lambda>latestTradingDayV.
         bindE (property raw ''06. volume'') (\<lambda>v6.
           Inr \<lparr>data =
                  \<lparr>symbol = ticker, open = openV, high = highV, low = lowV, price = priceV,
                   previousClose = previousCloseV, change = changeV,
                   changePercent = changePercentV, latestTradingDay = latestTradingDayV,
                   volume = parseInteger v6\<rparr>,
                cachedAt = stamp\<rparr>))))))))))))))))))"

definition getGlobalQuoteInternal ::
  "platform \<Rightarrow> string \<Rightarrow> world \<Rightarrow> (error + StockQuote CachedResult) \<times> world" where
  "getGlobalQuoteInternal pf ticker w =
     (case fetchAlphaVantage pf [(''function'', ''GLOBAL_QUOTE''), (''symbol'', ticker)] w of
        (Inl e, w') \<Rightarrow> (Inl e, w')
      | (Inr r, w') \<Rightarrow> (normalizeGlobalQuote ticker (data r) (cachedAt r), w'))"

subsection \<open>Daily series\<close>

record DailySeriesPoint =
  date :: string
  "open" :: number
  high :: number
  low :: number
  close :: number
  volume :: "number option"

text \<open>\<open>String.prototype.toLowerCase\<close> on code units below 256, and \<open>String.prototype.includes\<close>.\<close>

definition toLowerCaseChar :: "char \<Rightarrow> char" where
  "toLowerCaseChar c =
     (let n = (of_char c :: nat) in
      if (65 \<le> n \<and> n \<le> 90) \<or> (192 \<le> n \<and> n \<le> 222 \<and> n \<noteq> 215) then char_of (n + 32) else c)"

definition toLowerCase :: "string \<Rightarrow> string" where
  "toLowerCase s = map toLowerCaseChar s"

fun string_includes :: "string \<Rightarrow> string \<Rightarrow> bool" where
  "string_includes [] sub = (sub = [])"
| "string_includes (c # cs) sub = (take (length sub) (c # cs) = sub \<or> string_includes cs sub)"

definition isPremiumEndpointMessage :: "string \<Rightarrow> bool" where
  "isPremiumEndpointMessage m = string_includes (toLowerCase m) ''premium endpoint''"

definition fetchDailySeriesPayload ::
  "platform \<Rightarrow> string \<Rightarrow> world \<Rightarrow> (error + json option CachedResult) \<times> world" where
  "fetchDailySeriesPayload pf ticker w =
     (case fetchAlphaVantage pf
             [(''function'', ''TIME_SERIES_DAILY''), (''symbol'', ticker), (''outputsize'', ''compact'')] w of
        (Inr r, w') \<Rightarrow> (Inr r, w')
      | (Inl err, w') \<Rightarrow>
          if instanceofAlphaVantageError err \<and> isPremiumEndpointMessage (message err) then
            fetchAlphaVantage pf
              [(''function'', ''TIME_SERIES_DAILY_ADJUSTED''), (''symbol'', ticker),
               (''outputsize'', ''compact'')] w'
          else (Inl err, w'))"

text \<open>\<open>a ?? b\<close>: \<open>b\<close> is read only when \<open>a\<close> is \<open>undefined\<close> or \<open>null\<close>.\<close>

fun nullish :: "json option \<Rightarrow> bool" where
  "nullish None = True"
| "nullish (Some JNull) = True"
| "nullish (Some v) = False"

text \<open>The callback of \<open>entries.map\<close>: one dated entry becomes a point, or \<open>null\<close>.\<close>

definition dailySeriesPoint :: "string \<Rightarrow> string \<times> json \<Rightarrow> error + DailySeriesPoint option" where
  "dailySeriesPoint ticker entry =
     (let d = fst entry; vals = Some (snd entry) in
      bindE (property vals ''4. close'') (\<lambda>v4.
        case parseNumber v4 of
          None \<Rightarrow> Inr None
        | Some closeV \<Rightarrow>
            bindE (property vals ''1. open'') (\<lambda>v1.
            bindE (requireNumber v1 ''open'' ticker) (\<lambda>openV.
            bindE (property vals ''2. high'') (\<lambda>v2.
            bindE (requireNumber v2 ''high'' ticker) (\<lambda>highV.
            bindE (property vals ''3. low'') (\<lambda>v3.
            bindE (requireNumber v3 ''low'' ticker) (\<lambda>lowV.
            bindE (property vals ''6. volume'') (\<lambda>v6.
            bindE (if nullish v6 then property vals ''5. volume'' else Inr v6) (\<lambda>v.
              Inr (Some \<lparr>date = d, open = openV, high = highV, low = lowV, close = closeV,
                          volume = parseInteger v\<rparr>)))))))))))"

text \<open>\<open>getDailySeriesInternal\<close> after its \<open>await\<close>.\<close>

definition normalizeDailySeries ::
  "string \<Rightarrow> json option \<Rightarrow> isoTime \<Rightarrow> error + DailySeriesPoint list CachedResult" where
  "normalizeDailySeries ticker payload stamp =
     bindE (property payload ''Time Series (Daily)'') (\<lambda>rawSeries.
       case rawSeries of
         None \<Rightarrow>
           Inl (AlphaVantageError (''Unexpected TIME_SERIES_DAILY response shape for '' @ ticker @ ''.''))
       | Some series \<Rightarrow>
           if falsy rawSeries \<or> typeof rawSeries \<noteq> ''object'' then
             Inl (AlphaVantageError (''Unexpected TIME_SERIES_DAILY response shape for '' @ ticker @ ''.''))
           else
             (let entries = Object_entries series in
              if length entries = 0 then
                Inl (AlphaVantageError (''TIME_SERIES_DAILY returned no data for '' @ ticker @ ''.''))
              else
                bindE (mapE (dailySeriesPoint ticker) entries) (\<lambda>mapped.
                  Inr \<lparr>data =
                         sort_by (\<lambda>a b. if date a > date b then 1 else - 1)
                           (List.map_filter (\<lambda>item. item) mapped),
                       cachedAt = stamp\<rparr>)))"

definition getDailySeriesInternal ::
  "platform \<Rightarrow> string \<Rightarrow> world \<Rightarrow> (error + DailySeriesPoint list CachedResult) \<times> world" where
  "getDailySeriesInternal pf ticker w =
     (case fetchDailySeriesPayload pf ticker w of
        (Inl e, w') \<Rightarrow> (Inl e, w')
      | (Inr r, w') \<Rightarrow> (normalizeDailySeries ticker (data r) (cachedAt r), w'))"

subsection \<open>Company overview\<close>

record CompanyOverview =
  symbol :: string
  assetType :: "string option"
  name :: "string option"
  description :: "string option"
  exchange :: "string option"
  sector :: "string option"
  industry :: "string option"
  marketCapitalization :: "number option"

definition normalizeCompanyOverview ::
  "string \<Rightarrow> json option \<Rightarrow> isoTime \<Rightarrow> error + CompanyOverview CachedResult" where
  "normalizeCompanyOverview ticker payload stamp =
     (if falsy payload \<or> typeof payload \<noteq> ''object'' then
        Inl (AlphaVantageError (''Unexpected OVERVIEW response shape for '' @ ticker @ ''.''))
      else
        bindE (property payload ''AssetType'') (\<lambda>a.
        bindE (property payload ''Name'') (\<lambda>n.
        bindE (property payload ''Description'') (\<lambda>d.
        bindE (property payload ''Exchange'') (\<lambda>x.
        bindE (property payload ''Sector'') (\<lambda>s.
        bindE (property payload ''Industry'') (\<lambda>i.
        bindE (property payload ''MarketCapitalization'') (\<lambda>m.
          Inr \<lparr>data =
                 \<lparr>symbol = ticker, assetType = parseNullableString a,
                  name = parseNullableString n, description = parseNullableString d,
                  exchange = parseNullableString x, sector = parseNullableString s,
                  industry = parseNullableString i, marketCapitalization = parseInteger m\<rparr>,
               cachedAt = stamp\<rparr>))))))))"

definition getCompanyOverviewInternal ::
  "platform \<Rightarrow> string \<Rightarrow> world \<Rightarrow> (error + CompanyOverview CachedResult) \<times> world" where
  "getCompanyOverviewInternal pf ticker w =
     (case fetchAlphaVantage pf [(''function'', ''OVERVIEW''), (''symbol'', ticker)] w of
        (Inl e, w') \<Rightarrow> (Inl e, w')
      | (Inr r, w') \<Rightarrow> (normalizeCompanyOverview ticker (data r) (cachedAt r), w'))"

section \<open>The server application: the page-level fetch (page.tsx)\<close>

text \<open>
  \<open>Promise.allSettled\<close> waits for the three getters and keeps each outcome, fulfilled or
  rejected. The getters are parameters (the page calls the cached wrappers of the three
  internal getters); the model runs them one after the other on the shared world and does
  not model their interleaving.
\<close>

record ('q, 's, 'o) StockData =
  sd_quote :: "'q option"
  sd_quoteCachedAt :: "isoTime option"
  sd_series :: "'s list"
  sd_seriesCachedAt :: "isoTime option"
  sd_overview :: "'o option"
  sd_overviewCachedAt :: "isoTime option"
  sd_overviewError :: "error option"
  sd_error :: "error option"

definition fetchStockData ::
  "('w \<Rightarrow> (error + 'q CachedResult) \<times> 'w) \<Rightarrow> ('w \<Rightarrow> (error + 's list CachedResult) \<times> 'w)
   \<Rightarrow> ('w \<Rightarrow> (error + 'o CachedResult) \<times> 'w) \<Rightarrow> 'w \<Rightarrow> ('q, 's, 'o) StockData \<times> 'w" where
  "fetchStockData getGlobalQuote getDailySeries getCompanyOverview w =
     (let (quoteResult, w1) = getGlobalQuote w;
          (seriesResult, w2) = getDailySeries w1;
          (overviewResult, w3) = getCompanyOverview w2;
          quoteData = (case quoteResult of Inr v \<Rightarrow> Some v | Inl r \<Rightarrow> None);
          seriesData = (case seriesResult of Inr v \<Rightarrow> Some v | Inl r \<Rightarrow> None);
          overviewData = (case overviewResult of Inr v \<Rightarrow> Some v | Inl r \<Rightarrow> None);
          criticalError =
            (case quoteResult of
               Inl r \<Rightarrow> Some r
             | Inr v \<Rightarrow> (case seriesResult of Inl r \<Rightarrow> Some r | Inr v' \<Rightarrow> None))
      in (\<lparr>sd_quote = map_option data quoteData,
           sd_quoteCachedAt = map_option cachedAt quoteData,
           sd_series = (case seriesData of Some v \<Rightarrow> data v | None \<Rightarrow> []),
           sd_seriesCachedAt = map_option cachedAt seriesData,
           sd_overview = map_option data overviewData,
           sd_overviewCachedAt = map_option cachedAt overviewData,
           sd_overviewError = (case overviewResult of Inl r \<Rightarrow> Some r | Inr v \<Rightarrow> None),
           sd_error = criticalError\<rparr>, w3))"

section \<open>The browser application\<close>

subsection \<open>Configuration (env.ts)\<close>

record import_meta_env =
  VITE_ALPHAVANTAGE_API_KEY :: "string option"
  VITE_USE_MOCKS :: "string option"

record env_config =
  alphaVantageApiKey :: string
  useMocks :: bool
  cacheMaxAgeMs :: int

definition ENV :: "import_meta_env \<Rightarrow> env_config" where
  "ENV raw =
     \<lparr>alphaVantageApiKey =
        (case VITE_ALPHAVANTAGE_API_KEY raw of Some rawApiKey \<Rightarrow> trim rawApiKey | None \<Rightarrow> []),
      useMocks = (VITE_USE_MOCKS raw = Some ''true''),
      cacheMaxAgeMs = 1000 * 60 * 60 * 24\<rparr>"

definition shouldUseMocks :: "env_config \<Rightarrow> bool" where
  "shouldUseMocks e = (useMocks e \<or> length (alphaVantageApiKey e) = 0)"

subsection \<open>Mock data (mockStockData.ts)\<close>

definition STOCK_TICKERS :: "string list" where
  "STOCK_TICKERS =
     [''CRWV'', ''NBIS'', ''WULF'', ''WYFI'', ''CRDO'', ''CXDO'', ''GEV'', ''SSSS'', ''FLEX'',
      ''CCOI'', ''GD'', ''CORZ'', ''IREN'', ''CIFR'', ''TSLA'']"

text \<open>The types of the two schemas, \<open>companyOverviewSchema\<close> and \<open>timeSeriesEntrySchema\<close>.\<close>

record CompanyOverviewInput =
  symbol :: string
  assetType :: "string option"
  name :: "string option"
  description :: "string option"
  exchange :: "string option"
  sector :: "string option"
  industry :: "string option"
  marketCapitalization :: "string option"

record DailyPrice =
  date :: string
  close :: number
  volume :: number

definition sectors :: "string list" where
  "sectors = [''Technology'', ''Energy'', ''Finance'', ''Healthcare'']"

definition industries :: "string list" where
  "industries = [''Software'', ''Blockchain'', ''Semiconductors'', ''Biotech'']"

definition createCompanyOverview :: "string \<Rightarrow> nat \<Rightarrow> CompanyOverviewInput" where
  "createCompanyOverview ticker index =
     (let sectorV = sectors ! (index mod length sectors);
          industryV = (if index mod 4 = 0 then None
                       else Some (industries ! (index mod length industries)));
          exchangeV = (if index mod 2 = 0 then ''NASDAQ'' else ''NYSE'')
      in \<lparr>symbol = ticker,
          assetType = Some ''Common Stock'',
          name = Some (ticker @ '' Holdings''),
          description =
            Some (ticker @ '' is a mock company focused on '' @ toLowerCase sectorV @ '' solutions.''),
          exchange = Some exchangeV,
          sector = Some sectorV,
          industry = industryV,
          marketCapitalization = Some (string_of_nat (1000000000 + index * 250000000))\<rparr>)"

text \<open>
  \<open>new Date(Date.UTC(2024, 0, d)).toISOString().slice(0, 10)\<close> for a day \<open>d\<close> of January
  (the code asks for the days 1 to 10).
\<close>

definition januaryDate :: "nat \<Rightarrow> string" where
  "januaryDate d = ''2024-01-'' @ (if d < 10 then ''0'' @ string_of_nat d else string_of_nat d)"

text \<open>
  \<open>createTimeSeries\<close>: ten entries, newest first. The close of a day is the base price
  plus a multiple of 1.25, which \<open>toFixed(2)\<close> leaves as it is; the first code unit of
  an empty symbol is \<open>NaN\<close>.
\<close>

definition createTimeSeries :: "string \<Rightarrow> nat \<Rightarrow> DailyPrice list" where
  "createTimeSeries ticker index =
     (let baseVolume = 250000 + index * 5000;
          entries =
            map (\<lambda>dayIndex.
                   \<lparr>date = januaryDate (dayIndex + 1),
                    close =
                      (case ticker of
                         [] \<Rightarrow> NaN
                       | c # cs \<Rightarrow>
                           Num (of_nat (30 + ((of_char c :: nat) mod 25) + index)
                                + of_nat dayIndex * (5 / 4))),
                    volume = Num (of_nat (baseVolume + dayIndex * 12500))\<rparr>)
                [0..<10]
      in rev entries)"

text \<open>
  The two tables. \<open>Object.fromEntries\<close> pairs each ticker with the data made for its
  index; the schema check that follows accepts every such value and returns it.
\<close>

definition companyOverviewBySymbol :: "(string \<times> CompanyOverviewInput) list" where
  "companyOverviewBySymbol =
     map (\<lambda>p. (fst p, createCompanyOverview (fst p) (snd p)))
         (zip STOCK_TICKERS [0..<length STOCK_TICKERS])"

definition timeSeriesDailyBySymbol :: "(string \<times> DailyPrice list) list" where
  "timeSeriesDailyBySymbol =
     map (\<lambda>p. (fst p, createTimeSeries (fst p) (snd p)))
         (zip STOCK_TICKERS [0..<length STOCK_TICKERS])"

subsection \<open>Upstream client and normalizers of the browser application\<close>

record browser =
  fetched :: "request list"
  warnings :: "string list"

fun asString :: "json option \<Rightarrow> string option" where
  "asString (Some (JString s)) = Some s"
| "asString v = None"

text \<open>A URL is kept as its query parameters.\<close>

definition buildAlphaVantageUrl :: "env_config \<Rightarrow> string \<Rightarrow> string \<Rightarrow> request" where
  "buildAlphaVantageUrl e functionName ticker =
     [(''function'', functionName), (''symbol'', ticker), (''apikey'', alphaVantageApiKey e)]"

definition rateLimitMessage :: "json \<Rightarrow> error + string" where
  "rateLimitMessage json =
     bindE (property (Some json) ''Note'') (\<lambda>note.
       case asString note of
         Some m \<Rightarrow> Inr m
       | None \<Rightarrow>
           bindE (property (Some json) ''Information'') (\<lambda>information.
             case asString information of
               Some m \<Rightarrow> Inr m
             | None \<Rightarrow>
                 bindE (property (Some json) ''Error Message'') (\<lambda>errorMessage.
                   case asString errorMessage of
                     Some m \<Rightarrow> Inr m
                   | None \<Rightarrow> Inr ''AlphaVantage rate limit or error'')))"

definition fetchWithRateLimitGuard ::
  "(request list \<Rightarrow> request \<Rightarrow> error + response) \<Rightarrow> request \<Rightarrow> browser
   \<Rightarrow> (error + json) \<times> browser" where
  "fetchWithRateLimitGuard up url b =
     (let b' = b\<lparr>fetched := fetched b @ [url]\<rparr> in
      case up (fetched b) url of
        Inl e \<Rightarrow> (Inl e, b')
      | Inr response \<Rightarrow>
          if \<not> ok response then
            (Inl (Error (''AlphaVantage request failed: '' @ string_of_nat (status response)
                         @ '' '' @ statusText response)), b')
          else
            (case body response of
               None \<Rightarrow> (Inl (SyntaxError ''Unexpected token in JSON''), b')
             | Some json \<Rightarrow>
                 (bindE (in_operator ''Note'' json) (\<lambda>hasNote.
                  bindE (if hasNote then Inr True else in_operator ''Information'' json) (\<lambda>hasInfo.
                  bindE (if hasInfo then Inr True else in_operator ''Error Message'' json) (\<lambda>hasAny.
                    if hasAny then bindE (rateLimitMessage json) (\<lambda>m. Inl (Error m))
                    else Inr json))), b')))"

text \<open>
  The schema library is outside the repository; what is modelled is what its \<open>parse\<close>
  accepts and returns. A rejected value is one \<open>ZodError\<close>, whatever its issues.
  Where the code checks a value it has just built against a second schema
  (\<open>companyOverviewSchema\<close>, \<open>timeSeriesEntrySchema\<close>), the value has the type of
  that schema by construction and the check returns it.
\<close>

definition zod_string :: "json option \<Rightarrow> error + string" where
  "zod_string v = (case v of Some (JString s) \<Rightarrow> Inr s | _ \<Rightarrow> Inl (ZodError ''Invalid input''))"

definition zod_optional_string :: "json option \<Rightarrow> error + string option" where
  "zod_optional_string v =
     (case v of
        None \<Rightarrow> Inr None
      | Some (JString s) \<Rightarrow> Inr (Some s)
      | _ \<Rightarrow> Inl (ZodError ''Invalid input''))"

definition parseCompanyOverview :: "json \<Rightarrow> error + CompanyOverviewInput" where
  "parseCompanyOverview d =
     (case d of
        JObject kvs \<Rightarrow>
          bindE (zod_string (map_of kvs ''Symbol'')) (\<lambda>sy.
          bindE (zod_optional_string (map_of kvs ''AssetType'')) (\<lambda>a.
          bindE (zod_optional_string (map_of kvs ''Name'')) (\<lambda>n.
          bindE (zod_optional_string (map_of kvs ''Description'')) (\<lambda>de.
          bindE (zod_optional_string (map_of kvs ''Exchange'')) (\<lambda>x.
          bindE (zod_optional_string (map_of kvs ''Sector'')) (\<lambda>s.
          bindE (zod_optional_string (map_of kvs ''Industry'')) (\<lambda>i.
          bindE (zod_optional_string (map_of kvs ''MarketCapitalization'')) (\<lambda>m.
            Inr \<lparr>symbol = sy, assetType = a, name = n, description = de, exchange = x,
                 sector = s, industry = i, marketCapitalization = m\<rparr>))))))))
      | _ \<Rightarrow> Inl (ZodError ''Invalid input''))"

text \<open>One value of the record schema of \<open>alphaDailySeriesSchema\<close>: both fields are strings.\<close>

definition zod_day :: "string \<times> json \<Rightarrow> error + string \<times> string \<times> string" where
  "zod_day entry =
     (case snd entry of
        JObject flds \<Rightarrow>
          bindE (zod_string (map_of flds ''4. close'')) (\<lambda>c.
          bindE (zod_string (map_of flds ''5. volume'')) (\<lambda>v.
            Inr (fst entry, c, v)))
      | _ \<Rightarrow> Inl (ZodError ''Invalid input''))"

definition parseTimeSeriesDaily :: "json \<Rightarrow> error + DailyPrice list" where
  "parseTimeSeriesDaily d =
     (case d of
        JObject kvs \<Rightarrow>
          (case map_of kvs ''Time Series (Daily)'' of
             None \<Rightarrow> Inl (Error ''AlphaVantage response missing time series data'')
           | Some (JObject days) \<Rightarrow>
               bindE (mapE zod_day days) (\<lambda>series.
                 (let entries =
                        map (\<lambda>e. \<lparr>date = fst e,
                                   close = parseFloat (fst (snd e)),
                                   volume = parseInt10 (snd (snd e))\<rparr>) series;
                      validEntries =
                        filter (\<lambda>entry. isFinite (close entry) \<and> isFinite (volume entry)) entries;
                      sorted = sort_by (\<lambda>a b. if date a > date b then - 1 else 1) validEntries
                  in Inr sorted))
           | Some other \<Rightarrow> Inl (ZodError ''Invalid input''))
      | _ \<Rightarrow> Inl (ZodError ''Invalid input''))"

definition getCompanyOverviewFromApi ::
  "env_config \<Rightarrow> (request list \<Rightarrow> request \<Rightarrow> error + response) \<Rightarrow> string \<Rightarrow> browser
   \<Rightarrow> (error + CompanyOverviewInput) \<times> browser" where
  "getCompanyOverviewFromApi e up ticker b =
     (case fetchWithRateLimitGuard up (buildAlphaVantageUrl e ''OVERVIEW'' ticker) b of
        (Inl err, b') \<Rightarrow> (Inl err, b')
      | (Inr d, b') \<Rightarrow> (parseCompanyOverview d, b'))"

definition getDailySeriesFromApi ::
  "env_config \<Rightarrow> (request list \<Rightarrow> request \<Rightarrow> error + response) \<Rightarrow> string \<Rightarrow> browser
   \<Rightarrow> (error + DailyPrice list) \<times> browser" where
  "getDailySeriesFromApi e up ticker b =
     (case fetchWithRateLimitGuard up (buildAlphaVantageUrl e ''TIME_SERIES_DAILY'' ticker) b of
        (Inl err, b') \<Rightarrow> (Inl err, b')
      | (Inr d, b') \<Rightarrow> (parseTimeSeriesDaily d, b'))"

subsection \<open>Mock fallback\<close>

text \<open>
  A table read \<open>table[symbol]\<close> is \<open>undefined\<close> for a symbol outside the table, so the
  mock providers return an optional value; the value of a fetch is wrapped to the same type.
\<close>

definition getMockOverview :: "string \<Rightarrow> CompanyOverviewInput option" where
  "getMockOverview ticker = map_of companyOverviewBySymbol ticker"

definition getMockDailySeries :: "string \<Rightarrow> DailyPrice list option" where
  "getMockDailySeries ticker = map_of timeSeriesDailyBySymbol ticker"

datatype data_source = api | mock

record 'a FetchFallBack =
  fb_data :: 'a
  fb_source :: data_source

definition withMockFallback ::
  "env_config \<Rightarrow> string \<Rightarrow> (browser \<Rightarrow> (error + 'a) \<times> browser) \<Rightarrow> 'a \<Rightarrow> browser
   \<Rightarrow> 'a FetchFallBack \<times> browser" where
  "withMockFallback e ticker fetcher mockProvider b =
     (if shouldUseMocks e then (\<lparr>fb_data = mockProvider, fb_source = mock\<rparr>, b)
      else
        (case fetcher b of
           (Inr d, b') \<Rightarrow> (\<lparr>fb_data = d, fb_source = api\<rparr>, b')
         | (Inl err, b') \<Rightarrow>
             (\<lparr>fb_data = mockProvider, fb_source = mock\<rparr>,
              b'\<lparr>warnings := warnings b'
                   @ [''[AlphaVantage] Falling back to mock data for '' @ ticker @ ''. Reason: ''
                      @ message err]\<rparr>)))"

definition wrapSome :: "(error + 'a) \<times> 'b \<Rightarrow> (error + 'a option) \<times> 'b" where
  "wrapSome r = (case fst r of Inl e \<Rightarrow> (Inl e, snd r) | Inr v \<Rightarrow> (Inr (Some v), snd r))"

text \<open>The \<open>queryFn\<close> of \<open>companyOverviewQueryOptions\<close> and of \<open>dailySeriesQueryOptions\<close>.\<close>

definition companyOverviewQueryFn ::
  "env_config \<Rightarrow> (request list \<Rightarrow> request \<Rightarrow> error + response) \<Rightarrow> string \<Rightarrow> browser
   \<Rightarrow> CompanyOverviewInput option \<times> browser" where
  "companyOverviewQueryFn e up ticker b =
     (let (result, b') =
            withMockFallback e ticker (\<lambda>s. wrapSome (getCompanyOverviewFromApi e up ticker s))
              (getMockOverview ticker) b
      in (fb_data result, b'))"

definition dailySeriesQueryFn ::
  "env_config \<Rightarrow> (request list \<Rightarrow> request \<Rightarrow> error + response) \<Rightarrow> string \<Rightarrow> browser
   \<Rightarrow> DailyPrice list option \<times> browser" where
  "dailySeriesQueryFn e up ticker b =
     (let (result, b') =
            withMockFallback e ticker (\<lambda>s. wrapSome (getDailySeriesFromApi e up ticker s))
              (getMockDailySeries ticker) b
      in (fb_data result, b'))"

section \<open>Example inputs and the predicates of the statements\<close>

definition example_quote_fields :: "(string \<times> json) list" where
  "example_quote_fields =
     [(''01. symbol'', JString ''TSLA''), (''02. open'', JString ''250.0000''),
      (''03. high'', JString ''255.5000''), (''04. low'', JString ''248.1000''),
      (''05. price'', JString ''252.3000''), (''06. volume'', JString ''1234567''),
      (''07. latest trading day'', JString ''2024-01-05''),
      (''08. previous close'', JString ''249.0000''), (''09. change'', JString ''3.3000''),
      (''10. change percent'', JString ''1.3253%'')]"

definition quote_payload :: "(string \<times> json) list \<Rightarrow> json option" where
  "quote_payload flds = Some (JObject [(''Global Quote'', JObject flds)])"

text \<open>
  The data model of the specification calls \<open>latestTradingDay\<close> a date string; its
  shape, as the specification gives it for dates, is \<open>YYYY-MM-DD\<close>.
\<close>

definition spec_isDateString :: "string \<Rightarrow> bool" where
  "spec_isDateString s =
     (length s = 10 \<and> list_all isDigit (take 4 s) \<and> s ! 4 = CHR ''-''
      \<and> list_all isDigit (take 2 (drop 5 s)) \<and> s ! 7 = CHR ''-''
      \<and> list_all isDigit (drop 8 s))"

definition example_quote_no_volume :: "(string \<times> json) list" where
  "example_quote_no_volume = filter (\<lambda>kv. fst kv \<noteq> ''06. volume'') example_quote_fields"

definition example_quote_no_price :: "(string \<times> json) list" where
  "example_quote_no_price = filter (\<lambda>kv. fst kv \<noteq> ''05. price'') example_quote_fields"

definition example_quote_banana :: "(string \<times> json) list" where
  "example_quote_banana =
     map (\<lambda>kv. if fst kv = ''07. latest trading day'' then (fst kv, JString ''banana'') else kv)
       example_quote_fields"

text \<open>
  The required fields of a quote, as the code checks them: six numbers, the percentage, and
  a latest trading day that is a string with something other than white space in it.
\<close>

definition quoteFieldsParse :: "(string \<times> json) list \<Rightarrow> bool" where
  "quoteFieldsParse flds =
     (parseNumber (map_of flds ''02. open'') \<noteq> None
      \<and> parseNumber (map_of flds ''03. high'') \<noteq> None
      \<and> parseNumber (map_of flds ''04. low'') \<noteq> None
      \<and> parseNumber (map_of flds ''05. price'') \<noteq> None
      \<and> parseNumber (map_of flds ''08. previous close'') \<noteq> None
      \<and> parseNumber (map_of flds ''09. change'') \<noteq> None
      \<and> parsePercent (map_of flds ''10. change percent'') \<noteq> None
      \<and> (case map_of flds ''07. latest trading day'' of
           Some (JString s) \<Rightarrow> trim s \<noteq> []
         | _ \<Rightarrow> False))"

definition example_day :: "string \<Rightarrow> string \<Rightarrow> json" where
  "example_day c v =
     JObject [(''1. open'', JString ''10.0''), (''2. high'', JString ''12.5''),
              (''3. low'', JString ''9.5''), (''4. close'', JString c), (''5. volume'', JString v)]"

definition series_payload :: "(string \<times> json) list \<Rightarrow> json" where
  "series_payload days = JObject [(''Time Series (Daily)'', JObject days)]"

definition example_two_days :: "(string \<times> json) list" where
  "example_two_days =
     [(''2024-01-01'', example_day ''5'' ''10''), (''2024-01-02'', example_day ''7'' ''20'')]"

definition example_bad_volume_days :: "(string \<times> json) list" where
  "example_bad_volume_days =
     [(''2024-01-01'', example_day ''5'' ''10''), (''2024-01-02'', example_day ''7'' ''abc'')]"

definition example_bad_close_days :: "(string \<times> json) list" where
  "example_bad_close_days =
     [(''2024-01-01'', example_day ''n/a'' ''10''), (''2024-01-02'', example_day ''-'' ''20'')]"

text \<open>
  What the server normalizer reads of one day: the close, whether open, high and low
  parse, and the volume field it takes (\<open>6. volume\<close>, else \<open>5. volume\<close>).
\<close>

definition dayClose :: "(string \<times> json) list \<Rightarrow> number option" where
  "dayClose flds = parseNumber (map_of flds ''4. close'')"

definition dayOpenHighLowParse :: "(string \<times> json) list \<Rightarrow> bool" where
  "dayOpenHighLowParse flds =
     (parseNumber (map_of flds ''1. open'') \<noteq> None
      \<and> parseNumber (map_of flds ''2. high'') \<noteq> None
      \<and> parseNumber (map_of flds ''3. low'') \<noteq> None)"

definition dayVolumeField :: "(string \<times> json) list \<Rightarrow> json option" where
  "dayVolumeField flds =
     (if nullish (map_of flds ''6. volume'') then map_of flds ''5. volume''
      else map_of flds ''6. volume'')"

text \<open>An example collation, by code units, a cache file named by its key, and a world.\<close>

definition codeUnitCompare :: "string \<Rightarrow> string \<Rightarrow> int" where
  "codeUnitCompare a b = (if a < b then - 1 else if a = b then 0 else 1)"

definition example_platform :: "(request \<Rightarrow> error + response) \<Rightarrow> platform" where
  "example_platform up =
     \<lparr>DISK_CACHE_ENABLED = True, ALPHA_VANTAGE_API_KEY = ''demo'', sha256_hex = (\<lambda>key. key),
      localeCompare = codeUnitCompare, upstream = (\<lambda>history. up)\<rparr>"

definition empty_world :: world where
  "empty_world = \<lparr>now = 1700000000000, files = (\<lambda>p. None), requests = []\<rparr>"

definition http_ok :: "json \<Rightarrow> error + response" where
  "http_ok v = Inr \<lparr>ok = True, status = 200, statusText = ''OK'', body = Some v\<rparr>"

text \<open>
  The sentinel fields of an upstream body. \<open>hasSentinel\<close> is the condition of the
  specification: one of the three fields is a non-empty string. \<open>sentinelMessage\<close> is
  the first non-empty string in the order the server client looks (Note, Error Message,
  Information); \<open>firstStringSentinel\<close> is the first string, empty or not, in the order
  the browser client looks (Note, Information, Error Message).
\<close>

definition hasSentinel :: "(string \<times> json) list \<Rightarrow> bool" where
  "hasSentinel kvs =
     (nonEmptyString (map_of kvs ''Note'') \<noteq> None
      \<or> nonEmptyString (map_of kvs ''Information'') \<noteq> None
      \<or> nonEmptyString (map_of kvs ''Error Message'') \<noteq> None)"

definition sentinelMessage :: "(string \<times> json) list \<Rightarrow> string option" where
  "sentinelMessage kvs =
     (case nonEmptyString (map_of kvs ''Note'') of
        Some m \<Rightarrow> Some m
      | None \<Rightarrow>
          (case nonEmptyString (map_of kvs ''Error Message'') of
             Some m \<Rightarrow> Some m
           | None \<Rightarrow> nonEmptyString (map_of kvs ''Information'')))"

definition firstStringSentinel :: "(string \<times> json) list \<Rightarrow> string option" where
  "firstStringSentinel kvs =
     (case asString (map_of kvs ''Note'') of
        Some m \<Rightarrow> Some m
      | None \<Rightarrow>
          (case asString (map_of kvs ''Information'') of
             Some m \<Rightarrow> Some m
           | None \<Rightarrow> asString (map_of kvs ''Error Message'')))"

text \<open>The query parameters of a request for a parameter object, as \<open>fetchAlphaVantage\<close> builds them.\<close>

definition searchParamsOf :: "platform \<Rightarrow> (string \<times> string) list \<Rightarrow> request" where
  "searchParamsOf pf params =
     spread [(''datatype'', ''json''), (''apikey'', ALPHA_VANTAGE_API_KEY pf)] params"

definition standardParams :: "string \<Rightarrow> (string \<times> string) list" where
  "standardParams ticker =
     [(''function'', ''TIME_SERIES_DAILY''), (''symbol'', ticker), (''outputsize'', ''compact'')]"

definition adjustedParams :: "string \<Rightarrow> (string \<times> string) list" where
  "adjustedParams ticker =
     [(''function'', ''TIME_SERIES_DAILY_ADJUSTED''), (''symbol'', ticker),
      (''outputsize'', ''compact'')]"

text \<open>
  A collation orders a set of keys when, on it, any two keys are comparable, two keys that
  each come before the other are equal, and coming before is transitive.
\<close>

definition ordersKeys :: "(string \<Rightarrow> string \<Rightarrow> int) \<Rightarrow> string set \<Rightarrow> bool" where
  "ordersKeys cmp K =
     ((\<forall>a \<in> K. \<forall>b \<in> K. cmp a b \<le> 0 \<or> cmp b a \<le> 0)
      \<and> (\<forall>a \<in> K. \<forall>b \<in> K. cmp a b \<le> 0 \<and> cmp b a \<le> 0 \<longrightarrow> a = b)
      \<and> (\<forall>a \<in> K. \<forall>b \<in> K. \<forall>c \<in> K. cmp a b \<le> 0 \<and> cmp b c \<le> 0 \<longrightarrow> cmp a c \<le> 0))"

definition example_sentinel_body :: json where
  "example_sentinel_body =
     JObject [(''Note'', JString ''Thank you for using Alpha Vantage! Please retry later.'')]"

definition example_empty_note_body :: json where
  "example_empty_note_body =
     JObject [(''Note'', JString []), (''Information'', JString ''rate limit reached'')]"

definition empty_browser :: browser where
  "empty_browser = \<lparr>fetched = [], warnings = []\<rparr>"

definition sentinel_platform :: platform where
  "sentinel_platform = example_platform (\<lambda>r. http_ok example_sentinel_body)"

definition example_later_world :: world where
  "example_later_world =
     (snd (fetchAlphaVantage sentinel_platform (standardParams ''TSLA'') empty_world))
       \<lparr>now := 1700003600000\<rparr>"

definition premium_upstream :: "request \<Rightarrow> error + response" where
  "premium_upstream r =
     (if map_of r ''function'' = Some ''TIME_SERIES_DAILY'' then
        http_ok (JObject [(''Information'',
                           JString ''Thank you! This is a Premium Endpoint. Subscribe to unlock it.'')])
      else http_ok (series_payload example_two_days))"

definition rate_limited_upstream :: "request \<Rightarrow> error + response" where
  "rate_limited_upstream r =
     (if map_of r ''function'' = Some ''TIME_SERIES_DAILY'' then http_ok example_sentinel_body
      else http_ok (series_payload example_two_days))"

definition no_credential :: import_meta_env where
  "no_credential = \<lparr>VITE_ALPHAVANTAGE_API_KEY = None, VITE_USE_MOCKS = None\<rparr>"

definition unreachable_upstream :: "request list \<Rightarrow> request \<Rightarrow> error + response" where
  "unreachable_upstream history r = Inl (TypeError ''Failed to fetch'')"

text \<open>Scenario B: the overview endpoint answers 500, the other two answer with data.\<close>

definition scenario_b_upstream :: "request \<Rightarrow> error + response" where
  "scenario_b_upstream r =
     (if map_of r ''function'' = Some ''OVERVIEW'' then
        Inr \<lparr>ok = False, status = 500, statusText = ''Internal Server Error'', body = None\<rparr>
      else if map_of r ''function'' = Some ''GLOBAL_QUOTE'' then
        http_ok (JObject [(''Global Quote'', JObject example_quote_fields)])
      else http_ok (series_payload example_two_days))"

definition scenario_b_platform :: platform where
  "scenario_b_platform = example_platform scenario_b_upstream"

definition scenario_b_after_quote :: world where
  "scenario_b_after_quote = snd (getGlobalQuoteInternal scenario_b_platform ''GD'' empty_world)"

definition scenario_b_after_series :: world where
  "scenario_b_after_series =
     snd (getDailySeriesInternal scenario_b_platform ''GD'' scenario_b_after_quote)"

text \<open>
  An example collation with ties: it ignores the control code units below 9 and from 14
  to 31, and compares what is left by code units, so a key and the same key followed by
  the code unit 1 compare as equal. The collation of the platform has ties between
  different strings as well: it compares canonically equivalent strings as equal.
\<close>

definition isIgnoredControl :: "char \<Rightarrow> bool" where
  "isIgnoredControl c = ((of_char c :: nat) < 9 \<or> (14 \<le> (of_char c :: nat) \<and> (of_char c :: nat) < 32))"

definition ignoringControlCompare :: "string \<Rightarrow> string \<Rightarrow> int" where
  "ignoringControlCompare a b =
     codeUnitCompare (filter (\<lambda>c. \<not> isIgnoredControl c) a) (filter (\<lambda>c. \<not> isIgnoredControl c) b)"

definition tying_platform :: platform where
  "tying_platform = (example_platform premium_upstream)\<lparr>localeCompare := ignoringControlCompare\<rparr>"

definition tied_params :: "(string \<times> string) list" where
  "tied_params = [(''a'', ''1''), ([CHR ''a'', CHR 0x01], ''2'')]"

section \<open>Properties\<close>

subsection \<open>Errors and sorting\<close>

lemma bindE_Inr_iff: "bindE r f = Inr y \<longleftrightarrow> (\<exists>x. r = Inr x \<and> f x = Inr y)"
  by (cases r) (simp_all add: bindE_def)

lemma bindE_Inl_iff: "bindE r f = Inl e \<longleftrightarrow> r = Inl e \<or> (\<exists>x. r = Inr x \<and> f x = Inl e)"
  by (cases r) (simp_all add: bindE_def)

lemma bindE_Inr [simp]: "bindE (Inr x) f = f x"
  by (simp add: bindE_def)

lemma bindE_Inl [simp]: "bindE (Inl e) f = Inl e"
  by (simp add: bindE_def)

lemma set_insert_by: "set (insert_by cmp x ys) = insert x (set ys)"
  by (induction ys) auto

lemma set_sort_by: "set (sort_by cmp xs) = set xs"
  by (induction xs) (simp_all add: sort_by_def set_insert_by)

lemma length_insert_by: "length (insert_by cmp x ys) = Suc (length ys)"
  by (induction ys) auto

lemma length_sort_by: "length (sort_by cmp xs) = length xs"
  by (induction xs) (simp_all add: sort_by_def length_insert_by)

lemma distinct_map_insert_by:
  "distinct (map f (insert_by cmp x ys)) = distinct (map f (x # ys))"
  by (induction ys) (auto simp: set_insert_by)

lemma distinct_map_sort_by: "distinct (map f (sort_by cmp xs)) = distinct (map f xs)"
proof (induction xs)
  case Nil
  then show ?case by (simp add: sort_by_def)
next
  case (Cons x xs)
  have "sort_by cmp (x # xs) = insert_by cmp x (sort_by cmp xs)"
    by (simp add: sort_by_def)
  then show ?case
    using Cons by (simp add: distinct_map_insert_by set_sort_by)
qed

lemma sorted_wrt_insert_by:
  assumes "sorted_wrt S ys"
    and before: "\<And>y. y \<in> set ys \<Longrightarrow> cmp x y \<le> 0 \<Longrightarrow> S x y"
    and after: "\<And>y. y \<in> set ys \<Longrightarrow> \<not> cmp x y \<le> 0 \<Longrightarrow> S y x"
    and trans: "\<And>y z. y \<in> set ys \<Longrightarrow> z \<in> set ys \<Longrightarrow> S x y \<Longrightarrow> S y z \<Longrightarrow> S x z"
  shows "sorted_wrt S (insert_by cmp x ys)"
  using assms
proof (induction ys)
  case Nil
  then show ?case by simp
next
  case (Cons y ys)
  show ?case
  proof (cases "cmp x y \<le> 0")
    case True
    have xy: "S x y" using Cons.prems(2) True by simp
    have "S x z" if "z \<in> set ys" for z
    proof -
      have "S y z" using Cons.prems(1) that by simp
      then show ?thesis using Cons.prems(4) [of y z] xy that by simp
    qed
    then show ?thesis using True xy Cons.prems(1) by simp
  next
    case False
    have yx: "S y x" using Cons.prems(3) False by simp
    have ih: "sorted_wrt S (insert_by cmp x ys)"
    proof (rule Cons.IH)
      show "sorted_wrt S ys" using Cons.prems(1) by simp
    next
      fix z assume "z \<in> set ys" "cmp x z \<le> 0"
      then show "S x z" using Cons.prems(2) by simp
    next
      fix z assume "z \<in> set ys" "\<not> cmp x z \<le> 0"
      then show "S z x" using Cons.prems(3) by simp
    next
      fix u z assume "u \<in> set ys" "z \<in> set ys" "S x u" "S u z"
      then show "S x z" using Cons.prems(4) [of u z] by simp
    qed
    show ?thesis using False yx ih Cons.prems(1) by (simp add: set_insert_by)
  qed
qed

lemma sorted_wrt_sort_by:
  assumes before: "\<And>x y. x \<in> set xs \<Longrightarrow> y \<in> set xs \<Longrightarrow> cmp x y \<le> 0 \<Longrightarrow> S x y"
    and after: "\<And>x y. x \<in> set xs \<Longrightarrow> y \<in> set xs \<Longrightarrow> \<not> cmp x y \<le> 0 \<Longrightarrow> S y x"
    and trans: "\<And>x y z. x \<in> set xs \<Longrightarrow> y \<in> set xs \<Longrightarrow> z \<in> set xs \<Longrightarrow> S x y \<Longrightarrow> S y z \<Longrightarrow> S x z"
  shows "sorted_wrt S (sort_by cmp xs)"
  using assms
proof (induction xs)
  case Nil
  show ?case by (simp add: sort_by_def)
next
  case (Cons x xs)
  have ih: "sorted_wrt S (sort_by cmp xs)"
  proof (rule Cons.IH)
    fix a b assume "a \<in> set xs" "b \<in> set xs" "cmp a b \<le> 0"
    then show "S a b" using Cons.prems(1) [of a b] by simp
  next
    fix a b assume "a \<in> set xs" "b \<in> set xs" "\<not> cmp a b \<le> 0"
    then show "S b a" using Cons.prems(2) [of a b] by simp
  next
    fix a b c assume "a \<in> set xs" "b \<in> set xs" "c \<in> set xs" "S a b" "S b c"
    then show "S a c" using Cons.prems(3) [of a b c] by simp
  qed
  have eq: "sort_by cmp (x # xs) = insert_by cmp x (sort_by cmp xs)"
    by (simp add: sort_by_def)
  show ?case
    unfolding eq
  proof (rule sorted_wrt_insert_by [OF ih])
    fix y assume "y \<in> set (sort_by cmp xs)" "cmp x y \<le> 0"
    then show "S x y" using Cons.prems(1) [of x y] by (simp add: set_sort_by)
  next
    fix y assume "y \<in> set (sort_by cmp xs)" "\<not> cmp x y \<le> 0"
    then show "S y x" using Cons.prems(2) [of x y] by (simp add: set_sort_by)
  next
    fix y z assume "y \<in> set (sort_by cmp xs)" "z \<in> set (sort_by cmp xs)" "S x y" "S y z"
    then show "S x z" using Cons.prems(3) [of x y z] by (simp add: set_sort_by)
  qed
qed

lemma sorted_wrt_set_unique:
  assumes "sorted_wrt S xs" and "sorted_wrt S ys" and "set xs = set ys"
    and "distinct (map f xs)" and "distinct (map f ys)"
    and antisym: "\<And>x y. x \<in> set xs \<Longrightarrow> y \<in> set xs \<Longrightarrow> S x y \<Longrightarrow> S y x \<Longrightarrow> f x = f y"
  shows "xs = ys"
  using assms
proof (induction xs arbitrary: ys)
  case Nil
  then show ?case by simp
next
  case (Cons x xs)
  then obtain y ys' where ys: "ys = y # ys'" by (cases ys) auto
  have xy: "x = y"
  proof (rule ccontr)
    assume ne: "x \<noteq> y"
    have "x \<in> set ys'" using Cons.prems(3) ne ys by auto
    then have yx: "S y x" using Cons.prems(2) ys by simp
    have yin: "y \<in> set xs" using Cons.prems(3) ne ys by auto
    then have "S x y" using Cons.prems(1) by simp
    then have "f x = f y" using Cons.prems(6) [of x y] yx yin by simp
    then show False using Cons.prems(4) yin by force
  qed
  have dx: "x \<notin> set xs" using Cons.prems(4) by (auto simp: image_iff)
  have dy: "y \<notin> set ys'" using Cons.prems(5) ys by (auto simp: image_iff)
  have "set xs = set ys'" using Cons.prems(3) ys xy dx dy by auto
  note sets = this
  have "xs = ys'"
  proof (rule Cons.IH)
    show "sorted_wrt S xs" using Cons.prems(1) by simp
    show "sorted_wrt S ys'" using Cons.prems(2) ys by simp
    show "set xs = set ys'" by (rule sets)
    show "distinct (map f xs)" using Cons.prems(4) by simp
    show "distinct (map f ys')" using Cons.prems(5) ys by simp
  next
    fix a b assume "a \<in> set xs" "b \<in> set xs" "S a b" "S b a"
    then show "f a = f b" using Cons.prems(6) [of a b] by simp
  qed
  then show ?case using xy ys by simp
qed

lemmas js_eval = parseNumber_def parsePercent_def parseInteger_def trim_def parseFloat_def parseInt10_def
  trimStart_def isWhiteSpace_def isDigit_def digitsValue_def toDouble_def pow10_def readExponent_def

subsection \<open>Quotes\<close>

lemma quote_ok:
  assumes "map_of kvs ''Global Quote'' = Some (JObject flds)"
    and "parseNumber (map_of flds ''02. open'') = Some o1"
    and "parseNumber (map_of flds ''03. high'') = Some h1"
    and "parseNumber (map_of flds ''04. low'') = Some l1"
    and "parseNumber (map_of flds ''05. price'') = Some p1"
    and "parseNumber (map_of flds ''08. previous close'') = Some pc1"
    and "parseNumber (map_of flds ''09. change'') = Some c1"
    and "parsePercent (map_of flds ''10. change percent'') = Some cp1"
    and "map_of flds ''07. latest trading day'' = Some (JString d)" "trim d \<noteq> []"
  shows "normalizeGlobalQuote ticker (Some (JObject kvs)) stamp =
     Inr \<lparr>data =
            \<lparr>StockQuote.symbol = ticker, StockQuote.open = o1, StockQuote.high = h1,
             StockQuote.low = l1, price = p1, previousClose = pc1, change = c1,
             changePercent = cp1, latestTradingDay = d,
             StockQuote.volume = parseInteger (map_of flds ''06. volume'')\<rparr>,
          cachedAt = stamp\<rparr>"
  using assms by (simp add: normalizeGlobalQuote_def requireNumber_def requireDate_def)

lemma quote_fail:
  assumes "map_of kvs ''Global Quote'' = Some (JObject flds)"
    and "\<not> quoteFieldsParse flds"
  shows "\<exists>m. normalizeGlobalQuote ticker (Some (JObject kvs)) stamp = Inl (AlphaVantageError m)"
proof -
  have d: "(\<exists>m. requireDate (map_of flds ''07. latest trading day'') ticker = Inl (AlphaVantageError m))
      \<or> (\<exists>s. requireDate (map_of flds ''07. latest trading day'') ticker = Inr s
              \<and> map_of flds ''07. latest trading day'' = Some (JString s) \<and> trim s \<noteq> [])"
    by (auto simp: requireDate_def split: option.splits json.splits)
  show ?thesis
    using assms d
    by (auto simp: normalizeGlobalQuote_def requireNumber_def quoteFieldsParse_def
             split: option.splits)
qed

text \<open>
  C7, amended. A \<open>GLOBAL_QUOTE\<close> payload fails to normalize, with the error of the
  normalizer, when one of open, high, low, price, previous close, change does not parse as
  a finite number, when change percent does not parse, or when latest trading day is not a
  string or is blank; the latest trading day is not parsed as a date. When these eight
  fields pass, the payload normalizes, whatever the volume field holds: the volume of the
  quote is what the optional integer parser returns, absent when the field is absent.
\<close>

theorem quote_required_fields:
  assumes "map_of kvs ''Global Quote'' = Some (JObject flds)"
  shows "(if quoteFieldsParse flds
          then \<exists>q. normalizeGlobalQuote ticker (Some (JObject kvs)) stamp
                      = Inr \<lparr>data = q, cachedAt = stamp\<rparr>
                  \<and> StockQuote.volume q = parseInteger (map_of flds ''06. volume'')
                  \<and> (map_of flds ''06. volume'' = None \<longrightarrow> StockQuote.volume q = None)
          else \<exists>m. normalizeGlobalQuote ticker (Some (JObject kvs)) stamp
                      = Inl (AlphaVantageError m))"
proof (cases "quoteFieldsParse flds")
  case True
  then obtain o1 h1 l1 p1 pc1 c1 cp1 d where f:
    "parseNumber (map_of flds ''02. open'') = Some o1"
    "parseNumber (map_of flds ''03. high'') = Some h1"
    "parseNumber (map_of flds ''04. low'') = Some l1"
    "parseNumber (map_of flds ''05. price'') = Some p1"
    "parseNumber (map_of flds ''08. previous close'') = Some pc1"
    "parseNumber (map_of flds ''09. change'') = Some c1"
    "parsePercent (map_of flds ''10. change percent'') = Some cp1"
    "map_of flds ''07. latest trading day'' = Some (JString d)" "trim d \<noteq> []"
    by (auto simp: quoteFieldsParse_def split: option.splits json.splits)
  have none: "parseInteger None = None"
    by (simp add: parseInteger_def)
  show ?thesis
    using True quote_ok [OF assms f, of ticker stamp] none by auto
next
  case False
  then show ?thesis
    using quote_fail [OF assms False, of ticker stamp] by simp
qed

lemma example_quote_no_volume_parses: "quoteFieldsParse example_quote_no_volume"
  by (simp add: quoteFieldsParse_def example_quote_no_volume_def example_quote_fields_def js_eval)

lemma example_quote_no_price_fails: "\<not> quoteFieldsParse example_quote_no_price"
  by (simp add: quoteFieldsParse_def example_quote_no_price_def example_quote_fields_def js_eval)

theorem quote_required_fields_witness:
  "quoteFieldsParse example_quote_no_volume
   \<and> (\<exists>q. normalizeGlobalQuote ''TSLA'' (quote_payload example_quote_no_volume) (ISO 0)
             = Inr \<lparr>data = q, cachedAt = ISO 0\<rparr>
         \<and> StockQuote.volume q = None)
   \<and> \<not> quoteFieldsParse example_quote_no_price
   \<and> (\<exists>m. normalizeGlobalQuote ''TSLA'' (quote_payload example_quote_no_price) (ISO 0)
             = Inl (AlphaVantageError m))"
proof -
  have v: "map_of example_quote_no_volume ''06. volume'' = None"
    by (simp add: example_quote_no_volume_def example_quote_fields_def)
  have a: "map_of [(''Global Quote'', JObject example_quote_no_volume)] ''Global Quote''
             = Some (JObject example_quote_no_volume)"
    by simp
  have b: "map_of [(''Global Quote'', JObject example_quote_no_price)] ''Global Quote''
             = Some (JObject example_quote_no_price)"
    by simp
  show ?thesis
    using quote_required_fields [OF a, of "''TSLA''" "ISO 0"]
          quote_required_fields [OF b, of "''TSLA''" "ISO 0"]
          example_quote_no_volume_parses example_quote_no_price_fails v
    by (auto simp: quote_payload_def)
qed

theorem quote_accepts_non_date_counterexample:
  "\<not> spec_isDateString ''banana''
   \<and> normalizeGlobalQuote ''TSLA'' (quote_payload example_quote_banana) (ISO 0)
       = Inr \<lparr>data =
                \<lparr>StockQuote.symbol = ''TSLA'', StockQuote.open = Num 250,
                 StockQuote.high = Num (511 / 2), StockQuote.low = Num (2481 / 10),
                 price = Num (2523 / 10), previousClose = Num 249, change = Num (33 / 10),
                 changePercent = Num (13253 / 10000), latestTradingDay = ''banana'',
                 StockQuote.volume = Some (Num 1234567)\<rparr>,
              cachedAt = ISO 0\<rparr>"
  by (simp add: spec_isDateString_def normalizeGlobalQuote_def quote_payload_def
        example_quote_banana_def example_quote_fields_def requireNumber_def requireDate_def js_eval)

subsection \<open>Daily series\<close>

lemma mapE_Inr_length: "mapE f xs = Inr ys \<Longrightarrow> length ys = length xs"
  by (induction xs arbitrary: ys) (auto simp: bindE_Inr_iff)

lemma mapE_Inr_nth: "mapE f xs = Inr ys \<Longrightarrow> i < length xs \<Longrightarrow> f (xs ! i) = Inr (ys ! i)"
proof (induction xs arbitrary: ys i)
  case Nil
  then show ?case by simp
next
  case (Cons x xs)
  then obtain y ys' where "f x = Inr y" "mapE f xs = Inr ys'" "ys = y # ys'"
    by (auto simp: bindE_Inr_iff)
  then show ?case using Cons by (cases i) auto
qed

lemma mapE_Inl: "x \<in> set xs \<Longrightarrow> f x = Inl e \<Longrightarrow> \<exists>e'. mapE f xs = Inl e'"
proof (induction xs)
  case Nil
  then show ?case by simp
next
  case (Cons a xs)
  show ?case
  proof (cases "f a")
    case (Inl e0)
    then show ?thesis by simp
  next
    case (Inr y)
    have "x = a \<or> x \<in> set xs" using Cons.prems(1) by auto
    then have "\<exists>e'. mapE f xs = Inl e'"
      using Cons Inr by auto
    then show ?thesis using Inr by auto
  qed
qed

lemma mapE_all_Inr:
  "(\<And>x. x \<in> set xs \<Longrightarrow> \<exists>y. f x = Inr y) \<Longrightarrow> mapE f xs = Inr (map (\<lambda>x. projr (f x)) xs)"
proof (induction xs)
  case Nil
  then show ?case by simp
next
  case (Cons a xs)
  obtain y where y: "f a = Inr y" using Cons.prems [of a] by auto
  have "mapE f xs = Inr (map (\<lambda>x. projr (f x)) xs)"
    by (rule Cons.IH) (simp add: Cons.prems)
  then show ?case using y by simp
qed

lemma mapE_Inr_set:
  "mapE f xs = Inr ys \<Longrightarrow> set ys = {y. \<exists>x \<in> set xs. f x = Inr y}"
proof (induction xs arbitrary: ys)
  case Nil
  then show ?case by simp
next
  case (Cons x xs)
  then obtain y ys' where e: "f x = Inr y" "mapE f xs = Inr ys'" "ys = y # ys'"
    by (auto simp: bindE_Inr_iff)
  have "set ys' = {y. \<exists>x \<in> set xs. f x = Inr y}" using Cons.IH e by simp
  then show ?case using e by auto
qed

lemma dailySeriesPoint_date:
  "dailySeriesPoint t e = Inr (Some p) \<Longrightarrow> DailySeriesPoint.date p = fst e"
  by (auto simp: dailySeriesPoint_def Let_def bindE_Inr_iff split: option.splits)

lemma kept_dates:
  "mapE (dailySeriesPoint t) xs = Inr ys \<Longrightarrow>
     distinct (map fst xs) \<Longrightarrow>
     distinct (map DailySeriesPoint.date (List.map_filter (\<lambda>item. item) ys))
     \<and> set (map DailySeriesPoint.date (List.map_filter (\<lambda>item. item) ys)) \<subseteq> set (map fst xs)"
proof (induction xs arbitrary: ys)
  case Nil
  then show ?case by simp
next
  case (Cons x xs)
  then obtain y ys' where e: "dailySeriesPoint t x = Inr y" "mapE (dailySeriesPoint t) xs = Inr ys'" "ys = y # ys'"
    by (auto simp: bindE_Inr_iff)
  have ih: "distinct (map DailySeriesPoint.date (List.map_filter (\<lambda>item. item) ys'))
     \<and> set (map DailySeriesPoint.date (List.map_filter (\<lambda>item. item) ys')) \<subseteq> set (map fst xs)"
    using Cons.IH [OF e(2)] Cons.prems(2) by simp
  show ?case
  proof (cases y)
    case None
    then show ?thesis using ih e by auto
  next
    case (Some p)
    have "DailySeriesPoint.date p = fst x" using e(1) Some dailySeriesPoint_date by blast
    then show ?thesis using ih e Some Cons.prems(2) by auto
  qed
qed

lemma sorted_dates_sort_by:
  "sorted (map DailySeriesPoint.date
            (sort_by (\<lambda>a b. if DailySeriesPoint.date a > DailySeriesPoint.date b then 1 else - 1) xs))"
proof -
  have "sorted_wrt (\<lambda>a b. DailySeriesPoint.date a \<le> DailySeriesPoint.date b)
          (sort_by (\<lambda>a b. if DailySeriesPoint.date a > DailySeriesPoint.date b then 1 else - 1) xs)"
    by (rule sorted_wrt_sort_by) (auto split: if_splits)
  then show ?thesis by (simp add: sorted_map)
qed

lemma sorted_desc_dates_sort_by:
  "sorted (rev (map DailyPrice.date
            (sort_by (\<lambda>a b. if DailyPrice.date a > DailyPrice.date b then - 1 else 1) xs)))"
proof -
  have "sorted_wrt (\<lambda>a b. DailyPrice.date a \<ge> DailyPrice.date b)
          (sort_by (\<lambda>a b. if DailyPrice.date a > DailyPrice.date b then - 1 else 1) xs)"
    by (rule sorted_wrt_sort_by) (auto split: if_splits)
  then have "sorted_wrt (\<lambda>a b. a \<ge> b) (map DailyPrice.date
            (sort_by (\<lambda>a b. if DailyPrice.date a > DailyPrice.date b then - 1 else 1) xs))"
    by (simp add: sorted_wrt_map)
  then show ?thesis by (simp add: sorted_wrt_rev)
qed

lemma normalizeDailySeries_Inr:
  assumes "normalizeDailySeries t (Some (JObject kvs)) stamp = Inr r"
  shows "\<exists>series mapped. map_of kvs ''Time Series (Daily)'' = Some series
           \<and> Object_entries series \<noteq> []
           \<and> mapE (dailySeriesPoint t) (Object_entries series) = Inr mapped
           \<and> r = \<lparr>data = sort_by (\<lambda>a b. if DailySeriesPoint.date a > DailySeriesPoint.date b then 1 else - 1)
                             (List.map_filter (\<lambda>item. item) mapped),
                   cachedAt = stamp\<rparr>"
  using assms
  by (auto simp: normalizeDailySeries_def Let_def bindE_Inr_iff split: option.splits if_splits)

lemma zod_day_key: "zod_day e = Inr r \<Longrightarrow> fst r = fst e"
  by (auto simp: zod_day_def bindE_Inr_iff split: json.splits)

lemma mapE_zod_day_keys: "mapE zod_day days = Inr series \<Longrightarrow> map fst series = map fst days"
proof (induction days arbitrary: series)
  case Nil
  then show ?case by simp
next
  case (Cons d days)
  then obtain y ys where e: "zod_day d = Inr y" "mapE zod_day days = Inr ys" "series = y # ys"
    by (auto simp: bindE_Inr_iff)
  then show ?case using Cons.IH [OF e(2)] zod_day_key [OF e(1)] by simp
qed

lemma parseTimeSeriesDaily_Inr:
  assumes "parseTimeSeriesDaily (JObject kvs) = Inr ps"
  shows "\<exists>days series. map_of kvs ''Time Series (Daily)'' = Some (JObject days)
           \<and> mapE zod_day days = Inr series
           \<and> ps = sort_by (\<lambda>a b. if DailyPrice.date a > DailyPrice.date b then - 1 else 1)
                    (filter (\<lambda>entry. isFinite (DailyPrice.close entry) \<and> isFinite (DailyPrice.volume entry))
                       (map (\<lambda>e. \<lparr>DailyPrice.date = fst e, close = parseFloat (fst (snd e)),
                                   volume = parseInt10 (snd (snd e))\<rparr>) series))"
  using assms
  by (auto simp: parseTimeSeriesDaily_def Let_def bindE_Inr_iff split: option.splits json.splits)

text \<open>
  C3, amended. A daily series that the server normalizer returns is sorted ascending by
  date string; a daily series that the browser normalizer returns is sorted descending by
  date string (newest first, as its mock data is). In both, a date occurs at most once,
  because the dates are the keys of one object.
\<close>

theorem daily_series_order:
  "(normalizeDailySeries t (Some (JObject kvs)) stamp = Inr r \<longrightarrow>
      sorted (map DailySeriesPoint.date (data r))
      \<and> (\<forall>series. map_of kvs ''Time Series (Daily)'' = Some series
             \<and> distinct (map fst (Object_entries series))
           \<longrightarrow> distinct (map DailySeriesPoint.date (data r))))
   \<and> (parseTimeSeriesDaily (JObject kvs) = Inr ps \<longrightarrow>
      sorted (rev (map DailyPrice.date ps))
      \<and> (\<forall>days. map_of kvs ''Time Series (Daily)'' = Some (JObject days) \<and> distinct (map fst days)
           \<longrightarrow> distinct (map DailyPrice.date ps)))"
proof (intro conjI impI allI)
  assume a: "normalizeDailySeries t (Some (JObject kvs)) stamp = Inr r"
  show "sorted (map DailySeriesPoint.date (data r))"
    using normalizeDailySeries_Inr [OF a] sorted_dates_sort_by by auto
next
  fix series
  assume a: "normalizeDailySeries t (Some (JObject kvs)) stamp = Inr r"
    and b: "map_of kvs ''Time Series (Daily)'' = Some series
             \<and> distinct (map fst (Object_entries series))"
  obtain mapped where m: "mapE (dailySeriesPoint t) (Object_entries series) = Inr mapped"
    "data r = sort_by (\<lambda>a b. if DailySeriesPoint.date a > DailySeriesPoint.date b then 1 else - 1)
                (List.map_filter (\<lambda>item. item) mapped)"
    using normalizeDailySeries_Inr [OF a] b by auto
  have "distinct (map DailySeriesPoint.date (List.map_filter (\<lambda>item. item) mapped))"
    using kept_dates [OF m(1)] b by simp
  then show "distinct (map DailySeriesPoint.date (data r))"
    using m(2) by (simp add: distinct_map_sort_by)
next
  assume a: "parseTimeSeriesDaily (JObject kvs) = Inr ps"
  show "sorted (rev (map DailyPrice.date ps))"
    using parseTimeSeriesDaily_Inr [OF a] sorted_desc_dates_sort_by by auto
next
  fix days
  assume a: "parseTimeSeriesDaily (JObject kvs) = Inr ps"
    and b: "map_of kvs ''Time Series (Daily)'' = Some (JObject days) \<and> distinct (map fst days)"
  obtain series where s: "mapE zod_day days = Inr series"
    "ps = sort_by (\<lambda>a b. if DailyPrice.date a > DailyPrice.date b then - 1 else 1)
                    (filter (\<lambda>entry. isFinite (DailyPrice.close entry) \<and> isFinite (DailyPrice.volume entry))
                       (map (\<lambda>e. \<lparr>DailyPrice.date = fst e, close = parseFloat (fst (snd e)),
                                   volume = parseInt10 (snd (snd e))\<rparr>) series))"
    using parseTimeSeriesDaily_Inr [OF a] b by auto
  have "map DailyPrice.date (map (\<lambda>e. \<lparr>DailyPrice.date = fst e, close = parseFloat (fst (snd e)),
                                   volume = parseInt10 (snd (snd e))\<rparr>) series) = map fst days"
    using mapE_zod_day_keys [OF s(1)] by (simp add: comp_def)
  then have "distinct (map DailyPrice.date (map (\<lambda>e. \<lparr>DailyPrice.date = fst e, close = parseFloat (fst (snd e)),
                                   volume = parseInt10 (snd (snd e))\<rparr>) series))"
    using b by simp
  then show "distinct (map DailyPrice.date ps)"
    unfolding s(2) by (simp add: distinct_map_sort_by distinct_map_filter)
qed

lemmas daily_eval = normalizeDailySeries_def dailySeriesPoint_def requireNumber_def sort_by_def
  parseTimeSeriesDaily_def zod_day_def zod_string_def series_payload_def example_day_def

lemma example_two_days_server:
  "normalizeDailySeries ''TSLA'' (Some (series_payload (rev example_two_days))) (ISO 0)
     = Inr \<lparr>data =
              [\<lparr>DailySeriesPoint.date = ''2024-01-01'', open = Num 10, high = Num (25 / 2),
                low = Num (19 / 2), close = Num 5, volume = Some (Num 10)\<rparr>,
               \<lparr>DailySeriesPoint.date = ''2024-01-02'', open = Num 10, high = Num (25 / 2),
                low = Num (19 / 2), close = Num 7, volume = Some (Num 20)\<rparr>],
            cachedAt = ISO 0\<rparr>"
  by (simp add: daily_eval example_two_days_def js_eval)

lemma example_two_days_browser:
  "parseTimeSeriesDaily (series_payload example_two_days)
     = Inr [\<lparr>DailyPrice.date = ''2024-01-02'', close = Num 7, volume = Num 20\<rparr>,
            \<lparr>DailyPrice.date = ''2024-01-01'', close = Num 5, volume = Num 10\<rparr>]"
  by (simp add: daily_eval example_two_days_def js_eval)

theorem daily_series_order_witness:
  "sorted [''2024-01-01'', ''2024-01-02''] \<and> distinct [''2024-01-01'', ''2024-01-02'']
   \<and> sorted (rev [''2024-01-02'', ''2024-01-01''])
   \<and> normalizeDailySeries ''TSLA'' (Some (series_payload (rev example_two_days))) (ISO 0)
     = Inr \<lparr>data =
              [\<lparr>DailySeriesPoint.date = ''2024-01-01'', open = Num 10, high = Num (25 / 2),
                low = Num (19 / 2), close = Num 5, volume = Some (Num 10)\<rparr>,
               \<lparr>DailySeriesPoint.date = ''2024-01-02'', open = Num 10, high = Num (25 / 2),
                low = Num (19 / 2), close = Num 7, volume = Some (Num 20)\<rparr>],
            cachedAt = ISO 0\<rparr>
   \<and> parseTimeSeriesDaily (series_payload example_two_days)
     = Inr [\<lparr>DailyPrice.date = ''2024-01-02'', close = Num 7, volume = Num 20\<rparr>,
            \<lparr>DailyPrice.date = ''2024-01-01'', close = Num 5, volume = Num 10\<rparr>]"
  using daily_series_order
          [of "''TSLA''" "[(''Time Series (Daily)'', JObject (rev example_two_days))]" "ISO 0"
              "\<lparr>data =
              [\<lparr>DailySeriesPoint.date = ''2024-01-01'', open = Num 10, high = Num (25 / 2),
                low = Num (19 / 2), close = Num 5, volume = Some (Num 10)\<rparr>,
               \<lparr>DailySeriesPoint.date = ''2024-01-02'', open = Num 10, high = Num (25 / 2),
                low = Num (19 / 2), close = Num 7, volume = Some (Num 20)\<rparr>],
            cachedAt = ISO 0\<rparr>"
              "[\<lparr>DailyPrice.date = ''2024-01-02'', close = Num 7, volume = Num 20\<rparr>,
            \<lparr>DailyPrice.date = ''2024-01-01'', close = Num 5, volume = Num 10\<rparr>]"]
        example_two_days_server example_two_days_browser
  by (simp add: series_payload_def example_two_days_def)

theorem browser_series_descending_counterexample:
  "parseTimeSeriesDaily (series_payload example_two_days)
     = Inr [\<lparr>DailyPrice.date = ''2024-01-02'', close = Num 7, volume = Num 20\<rparr>,
            \<lparr>DailyPrice.date = ''2024-01-01'', close = Num 5, volume = Num 10\<rparr>]
   \<and> \<not> sorted [''2024-01-02'', ''2024-01-01'']"
  by (simp add: daily_eval example_two_days_def js_eval)

subsection \<open>The per-day rule\<close>

lemma day_dropped:
  "dayClose flds = None \<Longrightarrow> dailySeriesPoint t (d, JObject flds) = Inr None"
  by (simp add: dailySeriesPoint_def dayClose_def)

lemma day_fails:
  "dayClose flds = Some c \<Longrightarrow> \<not> dayOpenHighLowParse flds \<Longrightarrow>
     \<exists>m. dailySeriesPoint t (d, JObject flds) = Inl (AlphaVantageError m)"
  by (auto simp: dailySeriesPoint_def dayClose_def dayOpenHighLowParse_def requireNumber_def
           split: option.splits)

lemma day_kept:
  "dayClose flds = Some c \<Longrightarrow> dayOpenHighLowParse flds \<Longrightarrow>
     \<exists>p. dailySeriesPoint t (d, JObject flds) = Inr (Some p)
         \<and> DailySeriesPoint.date p = d \<and> DailySeriesPoint.close p = c
         \<and> DailySeriesPoint.volume p = parseInteger (dayVolumeField flds)"
  by (auto simp: dailySeriesPoint_def dayClose_def dayOpenHighLowParse_def requireNumber_def
        dayVolumeField_def split: option.splits)

lemma series_fails_if_day_fails:
  assumes "map_of kvs ''Time Series (Daily)'' = Some (JObject days)"
    and "e \<in> set days" and "dailySeriesPoint t e = Inl err"
  shows "\<exists>err'. normalizeDailySeries t (Some (JObject kvs)) stamp = Inl err'"
proof -
  obtain err' where "mapE (dailySeriesPoint t) days = Inl err'"
    using mapE_Inl [of e days "dailySeriesPoint t" err] assms(2,3) by auto
  moreover have "days \<noteq> []" using assms(2) by auto
  ultimately show ?thesis
    using assms(1) by (auto simp: normalizeDailySeries_def)
qed

lemma set_map_filter_id: "set (List.map_filter (\<lambda>item. item) ys) = {p. Some p \<in> set ys}"
  by (induction ys) (auto split: option.splits)

lemma series_kept_points:
  assumes "map_of kvs ''Time Series (Daily)'' = Some (JObject days)"
    and "days \<noteq> []"
    and ok: "\<And>e. e \<in> set days \<Longrightarrow> \<not> isl (dailySeriesPoint t e)"
  shows "\<exists>r. normalizeDailySeries t (Some (JObject kvs)) stamp = Inr r
             \<and> set (data r) = {p. \<exists>e \<in> set days. dailySeriesPoint t e = Inr (Some p)}"
proof -
  have "\<exists>y. dailySeriesPoint t e = Inr y" if "e \<in> set days" for e
    using ok [OF that] by (cases "dailySeriesPoint t e") auto
  then have m: "mapE (dailySeriesPoint t) days = Inr (map (\<lambda>x. projr (dailySeriesPoint t x)) days)"
    by (rule mapE_all_Inr)
  have s: "set (map (\<lambda>x. projr (dailySeriesPoint t x)) days) = {y. \<exists>x \<in> set days. dailySeriesPoint t x = Inr y}"
    by (rule mapE_Inr_set [OF m])
  have "normalizeDailySeries t (Some (JObject kvs)) stamp =
          Inr \<lparr>data = sort_by (\<lambda>a b. if DailySeriesPoint.date a > DailySeriesPoint.date b then 1 else - 1)
                         (List.map_filter (\<lambda>item. item) (map (\<lambda>x. projr (dailySeriesPoint t x)) days)),
               cachedAt = stamp\<rparr>"
    using assms(1,2) m by (simp add: normalizeDailySeries_def)
  moreover have "set (sort_by (\<lambda>a b. if DailySeriesPoint.date a > DailySeriesPoint.date b then 1 else - 1)
                         (List.map_filter (\<lambda>item. item) (map (\<lambda>x. projr (dailySeriesPoint t x)) days)))
        = {p. \<exists>e \<in> set days. dailySeriesPoint t e = Inr (Some p)}"
    unfolding set_sort_by set_map_filter_id s by simp
  ultimately show ?thesis by simp
qed

lemma zod_day_Inr_iff:
  "zod_day (d, JObject flds) = Inr r \<longleftrightarrow>
     (\<exists>c v. map_of flds ''4. close'' = Some (JString c) \<and> map_of flds ''5. volume'' = Some (JString v)
            \<and> r = (d, c, v))"
  by (auto simp: zod_day_def zod_string_def bindE_Inr_iff split: option.splits json.splits)

lemma browser_fails_if_day_fails:
  assumes "map_of kvs ''Time Series (Daily)'' = Some (JObject days)"
    and "e \<in> set days" and "zod_day e = Inl err"
  shows "\<exists>err'. parseTimeSeriesDaily (JObject kvs) = Inl err'"
proof -
  obtain err' where "mapE zod_day days = Inl err'"
    using mapE_Inl [of e days zod_day err] assms(2,3) by auto
  then show ?thesis
    using assms(1) by (auto simp: parseTimeSeriesDaily_def)
qed

lemma browser_kept_points:
  assumes "map_of kvs ''Time Series (Daily)'' = Some (JObject days)"
    and ok: "\<And>e. e \<in> set days \<Longrightarrow> \<not> isl (zod_day e)"
  shows "\<exists>ps. parseTimeSeriesDaily (JObject kvs) = Inr ps
             \<and> set ps = {p. \<exists>e \<in> set days. \<exists>c v. zod_day e = Inr (fst e, c, v)
                              \<and> p = \<lparr>DailyPrice.date = fst e, close = parseFloat c, volume = parseInt10 v\<rparr>
                              \<and> isFinite (parseFloat c) \<and> isFinite (parseInt10 v)}"
proof -
  have "\<exists>y. zod_day e = Inr y" if "e \<in> set days" for e
    using ok [OF that] by (cases "zod_day e") auto
  then have m: "mapE zod_day days = Inr (map (\<lambda>x. projr (zod_day x)) days)"
    by (rule mapE_all_Inr)
  have s: "set (map (\<lambda>x. projr (zod_day x)) days) = {y. \<exists>x \<in> set days. zod_day x = Inr y}"
    by (rule mapE_Inr_set [OF m])
  define conv where "conv = (\<lambda>e :: string \<times> string \<times> string.
       \<lparr>DailyPrice.date = fst e, close = parseFloat (fst (snd e)), volume = parseInt10 (snd (snd e))\<rparr>)"
  define ps where "ps = sort_by (\<lambda>a b. if DailyPrice.date a > DailyPrice.date b then - 1 else 1)
         (filter (\<lambda>entry. isFinite (DailyPrice.close entry) \<and> isFinite (DailyPrice.volume entry))
            (map conv (map (\<lambda>x. projr (zod_day x)) days)))"
  have p: "parseTimeSeriesDaily (JObject kvs) = Inr ps"
    using assms(1) m by (simp add: parseTimeSeriesDaily_def ps_def conv_def)
  have "set ps = {p. \<exists>y \<in> set (map (\<lambda>x. projr (zod_day x)) days). p = conv y
                      \<and> isFinite (DailyPrice.close p) \<and> isFinite (DailyPrice.volume p)}"
    unfolding ps_def set_sort_by by auto
  also have "\<dots> = {p. \<exists>e \<in> set days. \<exists>c v. zod_day e = Inr (fst e, c, v)
                              \<and> p = \<lparr>DailyPrice.date = fst e, close = parseFloat c, volume = parseInt10 v\<rparr>
                              \<and> isFinite (parseFloat c) \<and> isFinite (parseInt10 v)}"
  proof (rule Collect_cong, rule iffI)
    fix p
    assume "\<exists>y \<in> set (map (\<lambda>x. projr (zod_day x)) days). p = conv y
                      \<and> isFinite (DailyPrice.close p) \<and> isFinite (DailyPrice.volume p)"
    then obtain y where y: "y \<in> set (map (\<lambda>x. projr (zod_day x)) days)" "p = conv y"
       "isFinite (DailyPrice.close p)" "isFinite (DailyPrice.volume p)" by blast
    then obtain e where e: "e \<in> set days" "zod_day e = Inr y" using s by auto
    obtain c v where cv: "y = (fst e, c, v)"
      using zod_day_key [OF e(2)] by (cases y) auto
    show "\<exists>e \<in> set days. \<exists>c v. zod_day e = Inr (fst e, c, v)
                              \<and> p = \<lparr>DailyPrice.date = fst e, close = parseFloat c, volume = parseInt10 v\<rparr>
                              \<and> isFinite (parseFloat c) \<and> isFinite (parseInt10 v)"
      using e y cv by (auto simp: conv_def)
  next
    fix p
    assume "\<exists>e \<in> set days. \<exists>c v. zod_day e = Inr (fst e, c, v)
                              \<and> p = \<lparr>DailyPrice.date = fst e, close = parseFloat c, volume = parseInt10 v\<rparr>
                              \<and> isFinite (parseFloat c) \<and> isFinite (parseInt10 v)"
    then obtain e c v where e: "e \<in> set days" "zod_day e = Inr (fst e, c, v)"
       "p = \<lparr>DailyPrice.date = fst e, close = parseFloat c, volume = parseInt10 v\<rparr>"
       "isFinite (parseFloat c)" "isFinite (parseInt10 v)" by blast
    have "(fst e, c, v) \<in> set (map (\<lambda>x. projr (zod_day x)) days)"
      using s e(1,2) by auto
    then show "\<exists>y \<in> set (map (\<lambda>x. projr (zod_day x)) days). p = conv y
                      \<and> isFinite (DailyPrice.close p) \<and> isFinite (DailyPrice.volume p)"
      using e by (intro bexI [of _ "(fst e, c, v)"]) (auto simp: conv_def)
  qed
  finally show ?thesis using p by blast
qed

lemmas fetch_eval = fetchAlphaVantage_def cacheKeyOf_def readFromDiskCache_def writeToDiskCache_def
  getCacheFilePath_def DISK_CACHE_TTL_MS_def DAY_IN_SECONDS_def toISOString_def spread_def
  JSON_stringify_pairs_def quoteJSONString_def quoteChar_def example_platform_def
  empty_world_def http_ok_def codeUnitCompare_def

text \<open>
  C4, amended. The server normalizer applies a rule to each day: a day whose
  close does not parse is dropped and the other days are normalized; a day whose close
  parses but whose open, high or low does not fails the whole normalization; a day whose
  four prices parse is kept, with the volume the optional integer parser returns (absent
  when the volume is absent or not numeric). The browser normalizer reads only close and
  volume: a day whose close or volume is absent or not a string fails the whole
  normalization, and a day whose close or volume is a string that is not a finite number
  is dropped.
\<close>

theorem daily_series_per_day_rule:
  assumes "map_of kvs ''Time Series (Daily)'' = Some (JObject days)"
    and "(d, JObject flds) \<in> set days"
  shows "(dayClose flds = None \<longrightarrow> dailySeriesPoint t (d, JObject flds) = Inr None)
    \<and> (dayClose flds \<noteq> None \<and> \<not> dayOpenHighLowParse flds \<longrightarrow>
         (\<exists>m. dailySeriesPoint t (d, JObject flds) = Inl (AlphaVantageError m))
         \<and> (\<exists>err. normalizeDailySeries t (Some (JObject kvs)) stamp = Inl err))
    \<and> (dayClose flds \<noteq> None \<and> dayOpenHighLowParse flds \<longrightarrow>
         (\<exists>p. dailySeriesPoint t (d, JObject flds) = Inr (Some p)
              \<and> DailySeriesPoint.date p = d \<and> Some (DailySeriesPoint.close p) = dayClose flds
              \<and> DailySeriesPoint.volume p = parseInteger (dayVolumeField flds)))
    \<and> ((\<forall>e \<in> set days. \<not> isl (dailySeriesPoint t e)) \<longrightarrow>
         (\<exists>r. normalizeDailySeries t (Some (JObject kvs)) stamp = Inr r
              \<and> set (data r) = {p. \<exists>e \<in> set days. dailySeriesPoint t e = Inr (Some p)}))
    \<and> (asString (map_of flds ''4. close'') = None \<or> asString (map_of flds ''5. volume'') = None \<longrightarrow>
         (\<exists>err. parseTimeSeriesDaily (JObject kvs) = Inl err))
    \<and> ((\<forall>e \<in> set days. \<not> isl (zod_day e)) \<longrightarrow>
         (\<exists>ps. parseTimeSeriesDaily (JObject kvs) = Inr ps
              \<and> set ps = {p. \<exists>e \<in> set days. \<exists>c v. zod_day e = Inr (fst e, c, v)
                              \<and> p = \<lparr>DailyPrice.date = fst e, close = parseFloat c, volume = parseInt10 v\<rparr>
                              \<and> isFinite (parseFloat c) \<and> isFinite (parseInt10 v)}))"
proof (intro conjI impI)
  assume "dayClose flds = None"
  then show "dailySeriesPoint t (d, JObject flds) = Inr None" by (rule day_dropped)
next
  assume a: "dayClose flds \<noteq> None \<and> \<not> dayOpenHighLowParse flds"
  then obtain c where c: "dayClose flds = Some c" by auto
  show "\<exists>m. dailySeriesPoint t (d, JObject flds) = Inl (AlphaVantageError m)"
    using day_fails [OF c] a by simp
  then obtain m where "dailySeriesPoint t (d, JObject flds) = Inl (AlphaVantageError m)" by auto
  then show "\<exists>err. normalizeDailySeries t (Some (JObject kvs)) stamp = Inl err"
    using series_fails_if_day_fails [of kvs days "(d, JObject flds)" t "AlphaVantageError m" stamp] assms
    by simp
next
  assume a: "dayClose flds \<noteq> None \<and> dayOpenHighLowParse flds"
  then obtain c where c: "dayClose flds = Some c" by auto
  show "\<exists>p. dailySeriesPoint t (d, JObject flds) = Inr (Some p)
              \<and> DailySeriesPoint.date p = d \<and> Some (DailySeriesPoint.close p) = dayClose flds
              \<and> DailySeriesPoint.volume p = parseInteger (dayVolumeField flds)"
    using day_kept [OF c, of t d] a c by auto
next
  assume a: "\<forall>e \<in> set days. \<not> isl (dailySeriesPoint t e)"
  have ne: "days \<noteq> []" using assms(2) by auto
  show "\<exists>r. normalizeDailySeries t (Some (JObject kvs)) stamp = Inr r
              \<and> set (data r) = {p. \<exists>e \<in> set days. dailySeriesPoint t e = Inr (Some p)}"
    by (rule series_kept_points [OF assms(1) ne]) (use a in simp)
next
  assume a: "asString (map_of flds ''4. close'') = None \<or> asString (map_of flds ''5. volume'') = None"
  have "\<not> (\<exists>r. zod_day (d, JObject flds) = Inr r)"
    using a by (auto simp: zod_day_Inr_iff)
  then obtain err where "zod_day (d, JObject flds) = Inl err"
    by (cases "zod_day (d, JObject flds)") auto
  then show "\<exists>err. parseTimeSeriesDaily (JObject kvs) = Inl err"
    using browser_fails_if_day_fails [of kvs days "(d, JObject flds)" err] assms by simp
next
  assume a: "\<forall>e \<in> set days. \<not> isl (zod_day e)"
  show "\<exists>ps. parseTimeSeriesDaily (JObject kvs) = Inr ps
              \<and> set ps = {p. \<exists>e \<in> set days. \<exists>c v. zod_day e = Inr (fst e, c, v)
                              \<and> p = \<lparr>DailyPrice.date = fst e, close = parseFloat c, volume = parseInt10 v\<rparr>
                              \<and> isFinite (parseFloat c) \<and> isFinite (parseInt10 v)}"
    by (rule browser_kept_points [OF assms(1)]) (use a in simp)
qed

theorem daily_series_per_day_rule_witness:
  "map_of [(''Time Series (Daily)'', JObject example_bad_volume_days)] ''Time Series (Daily)''
     = Some (JObject example_bad_volume_days)
   \<and> (''2024-01-02'', example_day ''7'' ''abc'') \<in> set example_bad_volume_days
   \<and> normalizeDailySeries ''TSLA'' (Some (series_payload example_bad_volume_days)) (ISO 0)
     = Inr \<lparr>data =
              [\<lparr>DailySeriesPoint.date = ''2024-01-01'', open = Num 10, high = Num (25 / 2),
                low = Num (19 / 2), close = Num 5, volume = Some (Num 10)\<rparr>,
               \<lparr>DailySeriesPoint.date = ''2024-01-02'', open = Num 10, high = Num (25 / 2),
                low = Num (19 / 2), close = Num 7, volume = None\<rparr>],
            cachedAt = ISO 0\<rparr>
   \<and> normalizeDailySeries ''TSLA''
        (Some (series_payload [(''2024-01-01'', example_day ''n/a'' ''10''),
                               (''2024-01-02'', example_day ''7'' ''20'')])) (ISO 0)
     = Inr \<lparr>data =
              [\<lparr>DailySeriesPoint.date = ''2024-01-02'', open = Num 10, high = Num (25 / 2),
                low = Num (19 / 2), close = Num 7, volume = Some (Num 20)\<rparr>],
            cachedAt = ISO 0\<rparr>"
  using daily_series_per_day_rule
          [of "[(''Time Series (Daily)'', JObject example_bad_volume_days)]" example_bad_volume_days
              "''2024-01-02''"
              "[(''1. open'', JString ''10.0''), (''2. high'', JString ''12.5''),
                (''3. low'', JString ''9.5''), (''4. close'', JString ''7''),
                (''5. volume'', JString ''abc'')]" "''TSLA''" "ISO 0"]
  by (simp add: daily_eval example_bad_volume_days_def js_eval)

theorem browser_drops_bad_volume_counterexample:
  "parseFloat ''7'' = Num 7 \<and> parseInt10 ''abc'' = NaN
   \<and> parseTimeSeriesDaily (series_payload example_bad_volume_days)
       = Inr [\<lparr>DailyPrice.date = ''2024-01-01'', close = Num 5, volume = Num 10\<rparr>]"
  by (simp add: daily_eval example_bad_volume_days_def js_eval)

subsection \<open>Failures of the daily-series normalizers\<close>

lemma all_days_dropped:
  "(\<And>e. e \<in> set days \<Longrightarrow> \<exists>flds. snd e = JObject flds \<and> dayClose flds = None) \<Longrightarrow>
     mapE (dailySeriesPoint t) days = Inr (map (\<lambda>e. None) days)"
proof (induction days)
  case Nil
  then show ?case by simp
next
  case (Cons a days)
  obtain flds where f: "snd a = JObject flds" "dayClose flds = None"
    using Cons.prems [of a] by auto
  have "dailySeriesPoint t a = Inr None"
    using day_dropped [OF f(2), of t "fst a"] f(1) by (cases a) simp
  moreover have "mapE (dailySeriesPoint t) days = Inr (map (\<lambda>e. None) days)"
    by (rule Cons.IH) (simp add: Cons.prems)
  ultimately show ?case by simp
qed

lemma map_filter_all_None: "List.map_filter (\<lambda>item. item) (map (\<lambda>e. None) xs) = []"
  by (induction xs) simp_all

text \<open>
  C5, amended. Both daily-series normalizers fail when the nested time-series object is
  absent, and the server normalizer also fails when the nested value has no entries. The
  emptiness check of the server normalizer is on the raw entries, before the per-day
  parsing, and the browser normalizer has none: when every day is dropped by the per-day
  parsing, or (browser) when the nested object is empty, the normalizer returns an empty
  series.
\<close>

theorem daily_series_failures:
  "(map_of kvs ''Time Series (Daily)'' = None \<longrightarrow>
      (\<exists>m. normalizeDailySeries t (Some (JObject kvs)) stamp = Inl (AlphaVantageError m))
      \<and> parseTimeSeriesDaily (JObject kvs)
          = Inl (Error ''AlphaVantage response missing time series data''))
   \<and> (\<forall>series. map_of kvs ''Time Series (Daily)'' = Some series \<and> Object_entries series = []
        \<longrightarrow> (\<exists>m. normalizeDailySeries t (Some (JObject kvs)) stamp = Inl (AlphaVantageError m)))
   \<and> (\<forall>days. map_of kvs ''Time Series (Daily)'' = Some (JObject days) \<and> days \<noteq> []
              \<and> (\<forall>e \<in> set days. \<exists>flds. snd e = JObject flds \<and> dayClose flds = None)
        \<longrightarrow> normalizeDailySeries t (Some (JObject kvs)) stamp = Inr \<lparr>data = [], cachedAt = stamp\<rparr>)
   \<and> (map_of kvs ''Time Series (Daily)'' = Some (JObject []) \<longrightarrow>
        parseTimeSeriesDaily (JObject kvs) = Inr [])"
proof (intro conjI impI allI)
  assume "map_of kvs ''Time Series (Daily)'' = None"
  then show "\<exists>m. normalizeDailySeries t (Some (JObject kvs)) stamp = Inl (AlphaVantageError m)"
    and "parseTimeSeriesDaily (JObject kvs)
          = Inl (Error ''AlphaVantage response missing time series data'')"
    by (simp_all add: normalizeDailySeries_def parseTimeSeriesDaily_def)
next
  fix series
  assume "map_of kvs ''Time Series (Daily)'' = Some series \<and> Object_entries series = []"
  then show "\<exists>m. normalizeDailySeries t (Some (JObject kvs)) stamp = Inl (AlphaVantageError m)"
    by (simp add: normalizeDailySeries_def)
next
  fix days
  assume a: "map_of kvs ''Time Series (Daily)'' = Some (JObject days) \<and> days \<noteq> []
              \<and> (\<forall>e \<in> set days. \<exists>flds. snd e = JObject flds \<and> dayClose flds = None)"
  have "mapE (dailySeriesPoint t) days = Inr (map (\<lambda>e. None) days)"
    by (rule all_days_dropped) (use a in simp)
  then show "normalizeDailySeries t (Some (JObject kvs)) stamp = Inr \<lparr>data = [], cachedAt = stamp\<rparr>"
    using a by (simp add: normalizeDailySeries_def map_filter_all_None sort_by_def)
next
  assume "map_of kvs ''Time Series (Daily)'' = Some (JObject [])"
  then show "parseTimeSeriesDaily (JObject kvs) = Inr []"
    by (simp add: parseTimeSeriesDaily_def sort_by_def)
qed

theorem daily_series_failures_witness:
  "map_of [(''Meta Data'', JObject [])] ''Time Series (Daily)'' = None
   \<and> normalizeDailySeries ''TSLA'' (Some (JObject [(''Meta Data'', JObject [])])) (ISO 0)
       = Inl (AlphaVantageError ''Unexpected TIME_SERIES_DAILY response shape for TSLA.'')
   \<and> parseTimeSeriesDaily (JObject [(''Meta Data'', JObject [])])
       = Inl (Error ''AlphaVantage response missing time series data'')
   \<and> normalizeDailySeries ''TSLA'' (Some (series_payload [])) (ISO 0)
       = Inl (AlphaVantageError ''TIME_SERIES_DAILY returned no data for TSLA.'')
   \<and> normalizeDailySeries ''TSLA'' (Some (series_payload example_bad_close_days)) (ISO 0)
       = Inr \<lparr>data = [], cachedAt = ISO 0\<rparr>
   \<and> parseTimeSeriesDaily (series_payload []) = Inr []"
  using daily_series_failures [of "[(''Meta Data'', JObject [])]" "''TSLA''" "ISO 0"]
        daily_series_failures [of "[(''Time Series (Daily)'', JObject [])]" "''TSLA''" "ISO 0"]
  by (simp add: daily_eval example_bad_close_days_def js_eval)

theorem empty_series_returned_counterexample:
  "fst (getDailySeriesInternal
          (example_platform (\<lambda>r. http_ok (series_payload example_bad_close_days)))
          ''TSLA'' empty_world)
     = Inr \<lparr>data = [], cachedAt = ISO 1700000000000\<rparr>"
  by (simp add: getDailySeriesInternal_def fetchDailySeriesPayload_def fetch_eval daily_eval
        example_bad_close_days_def js_eval)

subsection \<open>The upstream client of the server\<close>

lemma readFromDiskCache_world:
  "requests (snd (readFromDiskCache pf key ttl w)) = requests w
   \<and> now (snd (readFromDiskCache pf key ttl w)) = now w"
  by (auto simp: readFromDiskCache_def Let_def split: option.splits sum.splits json.splits number.splits)

lemma readFromDiskCache_disabled:
  "\<not> DISK_CACHE_ENABLED pf \<Longrightarrow> readFromDiskCache pf key ttl w = (None, w)"
  by (simp add: readFromDiskCache_def)

text \<open>The checks after the payload is loaded, as a function of the payload.\<close>

lemma fetch_hit:
  assumes "readFromDiskCache pf (cacheKeyOf pf params) DISK_CACHE_TTL_MS w = (Some hit, w1)"
    and "toISOString (hit_timestamp hit) = Inr stamp"
    and "hit_data hit = Some (JObject kvs)"
  shows "fetchAlphaVantage pf params w =
           (case sentinelMessage kvs of
              Some m \<Rightarrow> (Inl (AlphaVantageError m), w1)
            | None \<Rightarrow> (Inr \<lparr>data = Some (JObject kvs), cachedAt = stamp\<rparr>, w1))"
  using assms
  by (simp add: fetchAlphaVantage_def sentinelMessage_def split: option.splits)

lemma fetch_miss_ok:
  assumes "readFromDiskCache pf (cacheKeyOf pf params) DISK_CACHE_TTL_MS w = (None, w1)"
    and "upstream pf (requests w1) (searchParamsOf pf params) = Inr response"
    and "ok response" and "body response = Some (JObject kvs)"
  shows "fetchAlphaVantage pf params w =
           (case sentinelMessage kvs of
              Some m \<Rightarrow> Inl (AlphaVantageError m)
            | None \<Rightarrow> Inr \<lparr>data = Some (JObject kvs), cachedAt = ISO (now w1)\<rparr>,
            writeToDiskCache pf (cacheKeyOf pf params) (JObject kvs)
              (w1\<lparr>requests := requests w1 @ [searchParamsOf pf params]\<rparr>))"
  using assms
  by (simp add: fetchAlphaVantage_def sentinelMessage_def searchParamsOf_def Let_def
           split: option.splits)

lemma fetch_miss_world:
  assumes "readFromDiskCache pf (cacheKeyOf pf params) DISK_CACHE_TTL_MS w = (None, w1)"
  shows "snd (fetchAlphaVantage pf params w) =
           (case upstream pf (requests w1) (searchParamsOf pf params) of
              Inl e \<Rightarrow> w1\<lparr>requests := requests w1 @ [searchParamsOf pf params]\<rparr>
            | Inr response \<Rightarrow>
                (case (if ok response then body response else None) of
                   None \<Rightarrow> w1\<lparr>requests := requests w1 @ [searchParamsOf pf params]\<rparr>
                 | Some payload \<Rightarrow>
                     writeToDiskCache pf (cacheKeyOf pf params) payload
                       (w1\<lparr>requests := requests w1 @ [searchParamsOf pf params]\<rparr>)))"
  using assms
  by (simp add: fetchAlphaVantage_def searchParamsOf_def Let_def
           split: option.splits sum.splits prod.splits)

lemma fetch_hit_world:
  assumes "readFromDiskCache pf (cacheKeyOf pf params) DISK_CACHE_TTL_MS w = (Some hit, w1)"
  shows "snd (fetchAlphaVantage pf params w) = w1"
  using assms
  by (simp add: fetchAlphaVantage_def Let_def split: option.splits sum.splits prod.splits)

lemma sentinel_checks_Inr:
  assumes "fst (fetchAlphaVantage pf params w) = Inr r"
  shows "\<exists>n e i. property (data r) ''Note'' = Inr n \<and> nonEmptyString n = None
              \<and> property (data r) ''Error Message'' = Inr e \<and> nonEmptyString e = None
              \<and> property (data r) ''Information'' = Inr i \<and> nonEmptyString i = None"
  using assms
  by (auto simp: fetchAlphaVantage_def Let_def split: option.splits sum.splits prod.splits if_splits)

lemma nonEmptyString_stringify_parse:
  "nonEmptyString (map_of (map (\<lambda>kv. (fst kv, stringify_parse (snd kv))) kvs) k)
     = nonEmptyString (map_of kvs k)"
proof (induction kvs)
  case Nil
  then show ?case by simp
next
  case (Cons kv kvs)
  show ?case
  proof (cases "fst kv = k")
    case True
    then show ?thesis by (cases "snd kv") simp_all
  next
    case False
    then show ?thesis using Cons by simp
  qed
qed

lemma sentinelMessage_stringify_parse:
  "sentinelMessage (map (\<lambda>kv. (fst kv, stringify_parse (snd kv))) kvs) = sentinelMessage kvs"
  unfolding sentinelMessage_def nonEmptyString_stringify_parse by (rule refl)

lemma read_after_write:
  assumes "DISK_CACHE_ENABLED pf"
    and "files w2 = files (writeToDiskCache pf key (JObject kvs) w0)"
    and "now w2 - now w0 \<le> ttl"
  shows "readFromDiskCache pf key ttl w2 =
           (Some \<lparr>hit_data = Some (JObject (map (\<lambda>kv. (fst kv, stringify_parse (snd kv))) kvs)),
                  hit_timestamp = of_int (now w0)\<rparr>, w2)"
proof -
  have "(of_int (now w2) :: rat) - of_int (now w0) \<le> of_int ttl"
    using assms(3) by (metis of_int_diff of_int_le_iff)
  then show ?thesis
    using assms(1,2) by (simp add: readFromDiskCache_def writeToDiskCache_def Let_def)
qed

lemma hasSentinel_iff: "hasSentinel kvs \<longleftrightarrow> sentinelMessage kvs \<noteq> None"
  by (auto simp: hasSentinel_def sentinelMessage_def split: option.splits)

lemma sentinelMessage_Some:
  "sentinelMessage kvs = Some m \<Longrightarrow>
     m \<noteq> [] \<and> (map_of kvs ''Note'' = Some (JString m) \<or> map_of kvs ''Error Message'' = Some (JString m)
               \<or> map_of kvs ''Information'' = Some (JString m))"
proof -
  have ne: "nonEmptyString v = Some s \<Longrightarrow> s \<noteq> [] \<and> v = Some (JString s)" for v s
    by (cases v rule: nonEmptyString.cases) (auto split: if_splits)
  assume "sentinelMessage kvs = Some m"
  then show ?thesis
    using ne by (auto simp: sentinelMessage_def split: option.splits)
qed

lemma fetch_disabled_files:
  assumes "\<not> DISK_CACHE_ENABLED pf"
  shows "files (snd (fetchAlphaVantage pf params w)) = files w"
proof -
  have m: "readFromDiskCache pf (cacheKeyOf pf params) DISK_CACHE_TTL_MS w = (None, w)"
    using assms by (rule readFromDiskCache_disabled)
  show ?thesis
    unfolding fetch_miss_world [OF m]
    using assms by (auto simp: writeToDiskCache_def split: sum.splits option.splits)
qed

text \<open>
  C1, amended. The orchestrator never returns a payload with a non-empty sentinel field as
  data, whether the payload was fetched or read from the cache. It leaves the cache files
  as the cache read left them when the upstream call fails, answers with a non-success
  status or sends no JSON, and as they were when the disk cache is disabled. With the disk
  cache enabled, the payload of an HTTP-success response is written before the sentinel
  check, a sentinel payload included: a later call within the TTL reads that payload back,
  applies the same check and fails with the same message, without a request to the
  upstream.
\<close>

theorem sentinel_payload_cache_behaviour:
  "(\<forall>r. fst (fetchAlphaVantage pf params w) = Inr r \<longrightarrow>
        (\<exists>n e i. property (data r) ''Note'' = Inr n \<and> nonEmptyString n = None
              \<and> property (data r) ''Error Message'' = Inr e \<and> nonEmptyString e = None
              \<and> property (data r) ''Information'' = Inr i \<and> nonEmptyString i = None))
   \<and> (readFromDiskCache pf (cacheKeyOf pf params) DISK_CACHE_TTL_MS w = (None, w1)
       \<and> (case upstream pf (requests w1) (searchParamsOf pf params) of
             Inl err \<Rightarrow> True
           | Inr response \<Rightarrow> \<not> ok response \<or> body response = None)
       \<longrightarrow> files (snd (fetchAlphaVantage pf params w)) = files w1)
   \<and> (readFromDiskCache pf (cacheKeyOf pf params) DISK_CACHE_TTL_MS w = (None, w1)
       \<and> upstream pf (requests w1) (searchParamsOf pf params) = Inr response
       \<and> ok response \<and> body response = Some (JObject kvs) \<and> sentinelMessage kvs = Some m
       \<longrightarrow> fetchAlphaVantage pf params w =
             (Inl (AlphaVantageError m),
              writeToDiskCache pf (cacheKeyOf pf params) (JObject kvs)
                (w1\<lparr>requests := requests w1 @ [searchParamsOf pf params]\<rparr>))
           \<and> (DISK_CACHE_ENABLED pf \<and> \<bar>now w\<bar> \<le> 8640000000000000
               \<and> files w2 = files (snd (fetchAlphaVantage pf params w))
               \<and> now w2 - now w \<le> DISK_CACHE_TTL_MS
               \<longrightarrow> fetchAlphaVantage pf params w2 = (Inl (AlphaVantageError m), w2)))
   \<and> (\<not> DISK_CACHE_ENABLED pf \<longrightarrow> files (snd (fetchAlphaVantage pf params w)) = files w)"
proof (intro conjI impI allI)
  assume "\<not> DISK_CACHE_ENABLED pf"
  then show "files (snd (fetchAlphaVantage pf params w)) = files w"
    by (rule fetch_disabled_files)
next
  fix r assume "fst (fetchAlphaVantage pf params w) = Inr r"
  then show "\<exists>n e i. property (data r) ''Note'' = Inr n \<and> nonEmptyString n = None
              \<and> property (data r) ''Error Message'' = Inr e \<and> nonEmptyString e = None
              \<and> property (data r) ''Information'' = Inr i \<and> nonEmptyString i = None"
    by (rule sentinel_checks_Inr)
next
  assume a: "readFromDiskCache pf (cacheKeyOf pf params) DISK_CACHE_TTL_MS w = (None, w1)
       \<and> (case upstream pf (requests w1) (searchParamsOf pf params) of
             Inl err \<Rightarrow> True
           | Inr response \<Rightarrow> \<not> ok response \<or> body response = None)"
  then have m: "readFromDiskCache pf (cacheKeyOf pf params) DISK_CACHE_TTL_MS w = (None, w1)"
    by simp
  show "files (snd (fetchAlphaVantage pf params w)) = files w1"
    using a unfolding fetch_miss_world [OF m]
    by (auto split: sum.splits)
next
  assume a: "readFromDiskCache pf (cacheKeyOf pf params) DISK_CACHE_TTL_MS w = (None, w1)
       \<and> upstream pf (requests w1) (searchParamsOf pf params) = Inr response
       \<and> ok response \<and> body response = Some (JObject kvs) \<and> sentinelMessage kvs = Some m"
  then have m: "readFromDiskCache pf (cacheKeyOf pf params) DISK_CACHE_TTL_MS w = (None, w1)"
    and u: "upstream pf (requests w1) (searchParamsOf pf params) = Inr response"
    and o: "ok response" and b: "body response = Some (JObject kvs)"
    and s: "sentinelMessage kvs = Some m"
    by simp_all
  show first: "fetchAlphaVantage pf params w =
             (Inl (AlphaVantageError m),
              writeToDiskCache pf (cacheKeyOf pf params) (JObject kvs)
                (w1\<lparr>requests := requests w1 @ [searchParamsOf pf params]\<rparr>))"
    using fetch_miss_ok [OF m u o b] s by simp
  assume c: "DISK_CACHE_ENABLED pf \<and> \<bar>now w\<bar> \<le> 8640000000000000
               \<and> files w2 = files (snd (fetchAlphaVantage pf params w))
               \<and> now w2 - now w \<le> DISK_CACHE_TTL_MS"
  define w0 where "w0 = w1\<lparr>requests := requests w1 @ [searchParamsOf pf params]\<rparr>"
  have now0: "now w0 = now w"
    using readFromDiskCache_world [of pf "cacheKeyOf pf params" DISK_CACHE_TTL_MS w] m
    by (simp add: w0_def)
  have f2: "files w2 = files (writeToDiskCache pf (cacheKeyOf pf params) (JObject kvs) w0)"
    using c first by (simp add: w0_def)
  have hit: "readFromDiskCache pf (cacheKeyOf pf params) DISK_CACHE_TTL_MS w2 =
           (Some \<lparr>hit_data = Some (JObject (map (\<lambda>kv. (fst kv, stringify_parse (snd kv))) kvs)),
                  hit_timestamp = of_int (now w0)\<rparr>, w2)"
    by (rule read_after_write) (use c f2 now0 in simp_all)
  have "\<bar>(of_int (now w) :: rat)\<bar> \<le> 8640000000000000"
    using c by (metis of_int_abs of_int_le_iff of_int_numeral)
  then have iso: "toISOString (of_int (now w0)) = Inr (ISO (now w))"
    by (simp add: toISOString_def now0)
  show "fetchAlphaVantage pf params w2 = (Inl (AlphaVantageError m), w2)"
    using fetch_hit [OF hit, of "ISO (now w)" "map (\<lambda>kv. (fst kv, stringify_parse (snd kv))) kvs"] iso s
    by (simp add: sentinelMessage_stringify_parse)
qed

lemmas example_eval = sentinel_platform_def example_later_world_def standardParams_def
  adjustedParams_def searchParamsOf_def example_sentinel_body_def sentinelMessage_def

theorem sentinel_payload_cache_behaviour_witness:
  "readFromDiskCache sentinel_platform (cacheKeyOf sentinel_platform (standardParams ''TSLA''))
       DISK_CACHE_TTL_MS empty_world = (None, empty_world)
   \<and> upstream sentinel_platform (requests empty_world)
         (searchParamsOf sentinel_platform (standardParams ''TSLA'')) = http_ok example_sentinel_body
   \<and> fst (fetchAlphaVantage sentinel_platform (standardParams ''TSLA'') empty_world)
       = Inl (AlphaVantageError ''Thank you for using Alpha Vantage! Please retry later.'')
   \<and> now example_later_world - now empty_world \<le> DISK_CACHE_TTL_MS
   \<and> fst (fetchAlphaVantage sentinel_platform (standardParams ''TSLA'') example_later_world)
       = Inl (AlphaVantageError ''Thank you for using Alpha Vantage! Please retry later.'')
   \<and> requests (snd (fetchAlphaVantage sentinel_platform (standardParams ''TSLA'') example_later_world))
       = requests example_later_world"
  using sentinel_payload_cache_behaviour
          [where pf = sentinel_platform and params = "standardParams ''TSLA''" and w = empty_world
             and ?w1.0 = empty_world
             and response = "\<lparr>ok = True, status = 200, statusText = ''OK'',
                               body = Some example_sentinel_body\<rparr>"
             and kvs = "[(''Note'', JString ''Thank you for using Alpha Vantage! Please retry later.'')]"
             and m = "''Thank you for using Alpha Vantage! Please retry later.''"
             and ?w2.0 = example_later_world]
  by (simp add: fetch_eval example_eval sort_by_def)

theorem sentinel_payload_cached_counterexample:
  "files empty_world
     (getCacheFilePath sentinel_platform (cacheKeyOf sentinel_platform (standardParams ''TSLA'')))
     = None
   \<and> fst (fetchAlphaVantage sentinel_platform (standardParams ''TSLA'') empty_world)
       = Inl (AlphaVantageError ''Thank you for using Alpha Vantage! Please retry later.'')
   \<and> files (snd (fetchAlphaVantage sentinel_platform (standardParams ''TSLA'') empty_world))
       (getCacheFilePath sentinel_platform (cacheKeyOf sentinel_platform (standardParams ''TSLA'')))
     = Some (Some (JObject [(''timestamp'', JNumber (Num 1700000000000)),
                            (''data'', example_sentinel_body)]))
   \<and> fst (readFromDiskCache sentinel_platform
            (cacheKeyOf sentinel_platform (standardParams ''TSLA'')) DISK_CACHE_TTL_MS
            example_later_world)
     = Some \<lparr>hit_data = Some example_sentinel_body, hit_timestamp = 1700000000000\<rparr>"
  by (simp add: fetch_eval example_eval sort_by_def)

subsection \<open>Sentinel fields\<close>

lemma browser_guard_object:
  assumes "up (fetched b) url = Inr response" "ok response" "body response = Some (JObject kvs)"
  shows "fst (fetchWithRateLimitGuard up url b) =
           (if map_of kvs ''Note'' \<noteq> None \<or> map_of kvs ''Information'' \<noteq> None
                \<or> map_of kvs ''Error Message'' \<noteq> None
            then Inl (Error (case firstStringSentinel kvs of
                               Some m \<Rightarrow> m
                             | None \<Rightarrow> ''AlphaVantage rate limit or error''))
            else Inr (JObject kvs))"
  using assms
  by (auto simp: fetchWithRateLimitGuard_def rateLimitMessage_def firstStringSentinel_def Let_def
           split: option.splits)

lemma nonEmptyString_Some: "nonEmptyString v = Some s \<longleftrightarrow> s \<noteq> [] \<and> v = Some (JString s)"
  by (cases v rule: nonEmptyString.cases) auto

lemma asString_Some: "asString v = Some s \<longleftrightarrow> v = Some (JString s)"
  by (cases v rule: asString.cases) auto

lemma hasSentinel_firstString:
  assumes "hasSentinel kvs"
  shows "\<exists>m. firstStringSentinel kvs = Some m
            \<and> (map_of kvs ''Note'' = Some (JString m) \<or> map_of kvs ''Information'' = Some (JString m)
                \<or> map_of kvs ''Error Message'' = Some (JString m))"
proof -
  have "asString (map_of kvs ''Note'') \<noteq> None \<or> asString (map_of kvs ''Information'') \<noteq> None
        \<or> asString (map_of kvs ''Error Message'') \<noteq> None"
    using assms by (auto simp: hasSentinel_def nonEmptyString_Some asString_Some)
  then show ?thesis
    by (auto simp: firstStringSentinel_def asString_Some split: option.splits)
qed

text \<open>
  C2, amended. An upstream body received with an HTTP success status in which one of the
  sentinel fields is a non-empty string makes both upstream clients fail, for every
  request, and the body is not returned as data. The error of the server client carries
  the first non-empty string among Note, Error Message and Information. The error of the
  browser client carries the first string among Note, Information and Error Message: a
  sentinel message of the body, which is empty only when a sentinel field of the body is
  the empty string.
\<close>

theorem sentinel_body_rejected:
  assumes "hasSentinel kvs" and "ok response" and "body response = Some (JObject kvs)"
  shows "(readFromDiskCache pf (cacheKeyOf pf params) DISK_CACHE_TTL_MS w = (None, w1)
          \<and> upstream pf (requests w1) (searchParamsOf pf params) = Inr response
          \<longrightarrow> (\<exists>m. fst (fetchAlphaVantage pf params w) = Inl (AlphaVantageError m)
                  \<and> sentinelMessage kvs = Some m \<and> m \<noteq> []
                  \<and> (map_of kvs ''Note'' = Some (JString m)
                      \<or> map_of kvs ''Error Message'' = Some (JString m)
                      \<or> map_of kvs ''Information'' = Some (JString m))))
       \<and> (up (fetched b) url = Inr response
          \<longrightarrow> (\<exists>m. fst (fetchWithRateLimitGuard up url b) = Inl (Error m)
                  \<and> firstStringSentinel kvs = Some m
                  \<and> (map_of kvs ''Note'' = Some (JString m)
                      \<or> map_of kvs ''Information'' = Some (JString m)
                      \<or> map_of kvs ''Error Message'' = Some (JString m))
                  \<and> (map_of kvs ''Note'' \<noteq> Some (JString [])
                      \<and> map_of kvs ''Information'' \<noteq> Some (JString [])
                      \<and> map_of kvs ''Error Message'' \<noteq> Some (JString []) \<longrightarrow> m \<noteq> [])))"
proof (intro conjI impI)
  assume a: "readFromDiskCache pf (cacheKeyOf pf params) DISK_CACHE_TTL_MS w = (None, w1)
          \<and> upstream pf (requests w1) (searchParamsOf pf params) = Inr response"
  obtain m where m: "sentinelMessage kvs = Some m"
    using assms(1) hasSentinel_iff by auto
  have "fst (fetchAlphaVantage pf params w) = Inl (AlphaVantageError m)"
    using fetch_miss_ok [of pf params w w1 response kvs] a assms(2,3) m by simp
  then show "\<exists>m. fst (fetchAlphaVantage pf params w) = Inl (AlphaVantageError m)
                  \<and> sentinelMessage kvs = Some m \<and> m \<noteq> []
                  \<and> (map_of kvs ''Note'' = Some (JString m)
                      \<or> map_of kvs ''Error Message'' = Some (JString m)
                      \<or> map_of kvs ''Information'' = Some (JString m))"
    using m sentinelMessage_Some [OF m] by blast
next
  assume a: "up (fetched b) url = Inr response"
  obtain m where m: "firstStringSentinel kvs = Some m"
    "map_of kvs ''Note'' = Some (JString m) \<or> map_of kvs ''Information'' = Some (JString m)
                \<or> map_of kvs ''Error Message'' = Some (JString m)"
    using hasSentinel_firstString [OF assms(1)] by blast
  have "fst (fetchWithRateLimitGuard up url b) = Inl (Error m)"
    using browser_guard_object [of up b url response kvs] a assms(2,3) m by auto
  moreover have "map_of kvs ''Note'' \<noteq> Some (JString [])
                      \<and> map_of kvs ''Information'' \<noteq> Some (JString [])
                      \<and> map_of kvs ''Error Message'' \<noteq> Some (JString []) \<longrightarrow> m \<noteq> []"
    using m(2) by auto
  ultimately show "\<exists>m. fst (fetchWithRateLimitGuard up url b) = Inl (Error m)
                  \<and> firstStringSentinel kvs = Some m
                  \<and> (map_of kvs ''Note'' = Some (JString m)
                      \<or> map_of kvs ''Information'' = Some (JString m)
                      \<or> map_of kvs ''Error Message'' = Some (JString m))
                  \<and> (map_of kvs ''Note'' \<noteq> Some (JString [])
                      \<and> map_of kvs ''Information'' \<noteq> Some (JString [])
                      \<and> map_of kvs ''Error Message'' \<noteq> Some (JString []) \<longrightarrow> m \<noteq> [])"
    using m by blast
qed

theorem sentinel_body_rejected_witness:
  "hasSentinel [(''Note'', JString ''Thank you for using Alpha Vantage! Please retry later.'')]
   \<and> fst (fetchAlphaVantage sentinel_platform [(''function'', ''OVERVIEW''), (''symbol'', ''GD'')]
            empty_world)
       = Inl (AlphaVantageError ''Thank you for using Alpha Vantage! Please retry later.'')
   \<and> fst (fetchAlphaVantage sentinel_platform [(''function'', ''GLOBAL_QUOTE''), (''symbol'', ''GD'')]
            empty_world)
       = Inl (AlphaVantageError ''Thank you for using Alpha Vantage! Please retry later.'')
   \<and> fst (fetchWithRateLimitGuard (\<lambda>h r. http_ok example_sentinel_body)
            [(''function'', ''OVERVIEW''), (''symbol'', ''GD''), (''apikey'', ''demo'')] empty_browser)
       = Inl (Error ''Thank you for using Alpha Vantage! Please retry later.'')"
  using sentinel_body_rejected
          [where kvs = "[(''Note'', JString ''Thank you for using Alpha Vantage! Please retry later.'')]"
             and response = "\<lparr>ok = True, status = 200, statusText = ''OK'',
                               body = Some example_sentinel_body\<rparr>"
             and pf = sentinel_platform
             and params = "[(''function'', ''OVERVIEW''), (''symbol'', ''GD'')]"
             and w = empty_world and ?w1.0 = empty_world
             and up = "\<lambda>h r. http_ok example_sentinel_body" and b = empty_browser
             and url = "[(''function'', ''OVERVIEW''), (''symbol'', ''GD''), (''apikey'', ''demo'')]"]
  by (simp add: fetch_eval example_eval sort_by_def hasSentinel_def fetchWithRateLimitGuard_def
        rateLimitMessage_def empty_browser_def)

theorem browser_guard_empty_message_counterexample:
  "hasSentinel [(''Note'', JString []), (''Information'', JString ''rate limit reached'')]
   \<and> fst (fetchWithRateLimitGuard (\<lambda>h r. http_ok example_empty_note_body)
            [(''function'', ''OVERVIEW''), (''symbol'', ''GD''), (''apikey'', ''demo'')] empty_browser)
       = Inl (Error [])"
  by (simp add: hasSentinel_def fetchWithRateLimitGuard_def rateLimitMessage_def
        empty_browser_def http_ok_def example_empty_note_body_def)

subsection \<open>The premium fallback\<close>

lemma take_prefix_iff: "take (length sub) xs = sub \<longleftrightarrow> (\<exists>b. xs = sub @ b)"
proof
  assume "take (length sub) xs = sub"
  then have "xs = sub @ drop (length sub) xs"
    by (metis append_take_drop_id)
  then show "\<exists>b. xs = sub @ b" ..
next
  assume "\<exists>b. xs = sub @ b"
  then show "take (length sub) xs = sub" by auto
qed

lemma string_includes_iff: "string_includes s sub \<longleftrightarrow> (\<exists>a b. s = a @ sub @ b)"
proof (induction s)
  case Nil
  then show ?case by auto
next
  case (Cons c cs)
  have "(\<exists>a b. c # cs = a @ sub @ b) \<longleftrightarrow> (\<exists>b. c # cs = sub @ b) \<or> (\<exists>a b. cs = a @ sub @ b)"
  proof
    assume "\<exists>a b. c # cs = a @ sub @ b"
    then obtain a b where ab: "c # cs = a @ sub @ b" by blast
    show "(\<exists>b. c # cs = sub @ b) \<or> (\<exists>a b. cs = a @ sub @ b)"
    proof (cases a)
      case Nil
      then show ?thesis using ab by auto
    next
      case (Cons x a')
      then have "cs = a' @ sub @ b" using ab by simp
      then show ?thesis by blast
    qed
  next
    assume "(\<exists>b. c # cs = sub @ b) \<or> (\<exists>a b. cs = a @ sub @ b)"
    then show "\<exists>a b. c # cs = a @ sub @ b"
    proof
      assume "\<exists>b. c # cs = sub @ b"
      then obtain b where "c # cs = [] @ sub @ b" by auto
      then show ?thesis by blast
    next
      assume "\<exists>a b. cs = a @ sub @ b"
      then obtain a b where "c # cs = (c # a) @ sub @ b" by auto
      then show ?thesis by blast
    qed
  qed
  then show ?case
    using Cons.IH take_prefix_iff [of sub "c # cs"] by simp
qed

lemma writeToDiskCache_requests: "requests (writeToDiskCache pf key v w) = requests w"
  by (simp add: writeToDiskCache_def Let_def)

lemma fetch_requests:
  "requests (snd (fetchAlphaVantage pf params w)) = requests w
   \<or> requests (snd (fetchAlphaVantage pf params w)) = requests w @ [searchParamsOf pf params]"
proof (cases "readFromDiskCache pf (cacheKeyOf pf params) DISK_CACHE_TTL_MS w")
  case (Pair cached w1)
  have r: "requests w1 = requests w"
    using readFromDiskCache_world [of pf "cacheKeyOf pf params" DISK_CACHE_TTL_MS w] Pair by simp
  show ?thesis
  proof (cases cached)
    case None
    show ?thesis
      using Pair None r unfolding fetch_miss_world [of pf params w w1, simplified Pair None, simplified]
      by (auto simp: writeToDiskCache_requests split: sum.splits option.splits)
  next
    case (Some hit)
    then show ?thesis
      using fetch_hit_world [of pf params w hit w1] Pair r by simp
  qed
qed

text \<open>
  C6. When the fetch of \<open>TIME_SERIES_DAILY\<close> fails with the error of the upstream client
  and a message that contains \<open>premium endpoint\<close> in any letter case, the daily-series
  fetch is one call of the client for \<open>TIME_SERIES_DAILY_ADJUSTED\<close>, made in the world
  the first call left: its result, data or error, is the result of the fetch, and the
  first failure is not surfaced. For any error whose message lacks the substring, and for
  any error that is not the client's, the first error is the result and the world is the
  one the first call left, so nothing is retried. The upstream is asked at most once for
  each of the two endpoints.
\<close>

theorem premium_fallback:
  assumes "fetchAlphaVantage pf (standardParams t) w = (r1, w1)"
  shows "(\<forall>r. r1 = Inr r \<longrightarrow> fetchDailySeriesPayload pf t w = (Inr r, w1))
    \<and> (\<forall>m. r1 = Inl (AlphaVantageError m) \<and> isPremiumEndpointMessage m \<longrightarrow>
           fetchDailySeriesPayload pf t w = fetchAlphaVantage pf (adjustedParams t) w1)
    \<and> (\<forall>e. r1 = Inl e \<and> \<not> isPremiumEndpointMessage (message e) \<longrightarrow>
           fetchDailySeriesPayload pf t w = (Inl e, w1))
    \<and> (\<forall>e. r1 = Inl e \<and> \<not> instanceofAlphaVantageError e \<longrightarrow>
           fetchDailySeriesPayload pf t w = (Inl e, w1))
    \<and> (\<forall>m. isPremiumEndpointMessage m \<longleftrightarrow> (\<exists>a b. toLowerCase m = a @ ''premium endpoint'' @ b))
    \<and> requests (snd (fetchDailySeriesPayload pf t w))
        \<in> {requests w,
           requests w @ [searchParamsOf pf (standardParams t)],
           requests w @ [searchParamsOf pf (adjustedParams t)],
           requests w @ [searchParamsOf pf (standardParams t), searchParamsOf pf (adjustedParams t)]}"
proof -
  have first: "requests w1 = requests w
     \<or> requests w1 = requests w @ [searchParamsOf pf (standardParams t)]"
    using fetch_requests [of pf "standardParams t" w] assms by simp
  have second: "requests (snd (fetchAlphaVantage pf (adjustedParams t) w1)) = requests w1
     \<or> requests (snd (fetchAlphaVantage pf (adjustedParams t) w1))
          = requests w1 @ [searchParamsOf pf (adjustedParams t)]"
    by (rule fetch_requests)
  have cases: "fetchDailySeriesPayload pf t w = (r1, w1)
     \<or> fetchDailySeriesPayload pf t w = fetchAlphaVantage pf (adjustedParams t) w1"
    using assms
    by (auto simp: fetchDailySeriesPayload_def standardParams_def adjustedParams_def
             split: sum.splits)
  have reqs: "requests (snd (fetchDailySeriesPayload pf t w))
        \<in> {requests w,
           requests w @ [searchParamsOf pf (standardParams t)],
           requests w @ [searchParamsOf pf (adjustedParams t)],
           requests w @ [searchParamsOf pf (standardParams t), searchParamsOf pf (adjustedParams t)]}"
    using cases first second by auto
  have rest: "(\<forall>r. r1 = Inr r \<longrightarrow> fetchDailySeriesPayload pf t w = (Inr r, w1))
    \<and> (\<forall>m. r1 = Inl (AlphaVantageError m) \<and> isPremiumEndpointMessage m \<longrightarrow>
           fetchDailySeriesPayload pf t w = fetchAlphaVantage pf (adjustedParams t) w1)
    \<and> (\<forall>e. r1 = Inl e \<and> \<not> isPremiumEndpointMessage (message e) \<longrightarrow>
           fetchDailySeriesPayload pf t w = (Inl e, w1))
    \<and> (\<forall>e. r1 = Inl e \<and> \<not> instanceofAlphaVantageError e \<longrightarrow>
           fetchDailySeriesPayload pf t w = (Inl e, w1))"
    using assms
    by (auto simp: fetchDailySeriesPayload_def standardParams_def adjustedParams_def)
  have sub: "\<forall>m. isPremiumEndpointMessage m \<longleftrightarrow> (\<exists>a b. toLowerCase m = a @ ''premium endpoint'' @ b)"
    by (simp add: isPremiumEndpointMessage_def string_includes_iff)
  show ?thesis
    using rest sub reqs by blast
qed

lemma premium_example_first:
  "fst (fetchAlphaVantage (example_platform premium_upstream) (standardParams ''TSLA'') empty_world)
     = Inl (AlphaVantageError ''Thank you! This is a Premium Endpoint. Subscribe to unlock it.'')"
  by code_simp

lemma premium_example_message:
  "isPremiumEndpointMessage ''Thank you! This is a Premium Endpoint. Subscribe to unlock it.''"
  by code_simp

lemma premium_example_result:
  "fst (fetchDailySeriesPayload (example_platform premium_upstream) ''TSLA'' empty_world)
     = Inr \<lparr>data = Some (series_payload example_two_days), cachedAt = ISO 1700000000000\<rparr>"
  by code_simp

lemma premium_example_requests:
  "requests (snd (fetchDailySeriesPayload (example_platform premium_upstream) ''TSLA'' empty_world))
     = [[(''datatype'', ''json''), (''apikey'', ''demo''), (''function'', ''TIME_SERIES_DAILY''),
         (''symbol'', ''TSLA''), (''outputsize'', ''compact'')],
        [(''datatype'', ''json''), (''apikey'', ''demo''),
         (''function'', ''TIME_SERIES_DAILY_ADJUSTED''), (''symbol'', ''TSLA''),
         (''outputsize'', ''compact'')]]"
  by code_simp

lemma rate_limited_example_message:
  "\<not> isPremiumEndpointMessage ''Thank you for using Alpha Vantage! Please retry later.''"
  by code_simp

lemma rate_limited_example_result:
  "fst (fetchDailySeriesPayload (example_platform rate_limited_upstream) ''TSLA'' empty_world)
     = Inl (AlphaVantageError ''Thank you for using Alpha Vantage! Please retry later.'')"
  by code_simp

lemma rate_limited_example_requests:
  "requests (snd (fetchDailySeriesPayload (example_platform rate_limited_upstream) ''TSLA'' empty_world))
     = [[(''datatype'', ''json''), (''apikey'', ''demo''), (''function'', ''TIME_SERIES_DAILY''),
         (''symbol'', ''TSLA''), (''outputsize'', ''compact'')]]"
  by code_simp

theorem premium_fallback_witness:
  "fst (fetchAlphaVantage (example_platform premium_upstream) (standardParams ''TSLA'') empty_world)
     = Inl (AlphaVantageError ''Thank you! This is a Premium Endpoint. Subscribe to unlock it.'')
   \<and> isPremiumEndpointMessage ''Thank you! This is a Premium Endpoint. Subscribe to unlock it.''
   \<and> fetchDailySeriesPayload (example_platform premium_upstream) ''TSLA'' empty_world
       = fetchAlphaVantage (example_platform premium_upstream) (adjustedParams ''TSLA'')
           (snd (fetchAlphaVantage (example_platform premium_upstream) (standardParams ''TSLA'')
                   empty_world))
   \<and> fst (fetchDailySeriesPayload (example_platform premium_upstream) ''TSLA'' empty_world)
       = Inr \<lparr>data = Some (series_payload example_two_days), cachedAt = ISO 1700000000000\<rparr>
   \<and> requests (snd (fetchDailySeriesPayload (example_platform premium_upstream) ''TSLA'' empty_world))
       = [[(''datatype'', ''json''), (''apikey'', ''demo''), (''function'', ''TIME_SERIES_DAILY''),
           (''symbol'', ''TSLA''), (''outputsize'', ''compact'')],
          [(''datatype'', ''json''), (''apikey'', ''demo''),
           (''function'', ''TIME_SERIES_DAILY_ADJUSTED''), (''symbol'', ''TSLA''),
           (''outputsize'', ''compact'')]]
   \<and> \<not> isPremiumEndpointMessage ''Thank you for using Alpha Vantage! Please retry later.''
   \<and> fst (fetchDailySeriesPayload (example_platform rate_limited_upstream) ''TSLA'' empty_world)
       = Inl (AlphaVantageError ''Thank you for using Alpha Vantage! Please retry later.'')
   \<and> requests (snd (fetchDailySeriesPayload (example_platform rate_limited_upstream) ''TSLA''
                      empty_world))
       = [[(''datatype'', ''json''), (''apikey'', ''demo''), (''function'', ''TIME_SERIES_DAILY''),
           (''symbol'', ''TSLA''), (''outputsize'', ''compact'')]]"
proof -
  have h: "fetchAlphaVantage (example_platform premium_upstream) (standardParams ''TSLA'') empty_world
     = (Inl (AlphaVantageError ''Thank you! This is a Premium Endpoint. Subscribe to unlock it.''),
        snd (fetchAlphaVantage (example_platform premium_upstream) (standardParams ''TSLA'')
               empty_world))"
    using premium_example_first by (metis prod.collapse)
  have "fetchDailySeriesPayload (example_platform premium_upstream) ''TSLA'' empty_world
       = fetchAlphaVantage (example_platform premium_upstream) (adjustedParams ''TSLA'')
           (snd (fetchAlphaVantage (example_platform premium_upstream) (standardParams ''TSLA'')
                   empty_world))"
    using premium_fallback [OF h] premium_example_message by blast
  then show ?thesis
    using premium_example_first premium_example_message premium_example_result
      premium_example_requests rate_limited_example_message rate_limited_example_result
      rate_limited_example_requests
    by simp
qed

subsection \<open>Cache keys\<close>

lemma sort_params_unique:
  assumes "set (p1 :: (string \<times> string) list) = set p2" and "distinct (map fst p1)" and "distinct (map fst p2)"
    and "ordersKeys cmp (fst ` set p1)"
  shows "sort_by (\<lambda>a b. cmp (fst a) (fst b)) p1 = sort_by (\<lambda>a b. cmp (fst a) (fst b)) p2"
proof -
  let ?c = "\<lambda>a b :: string \<times> string. cmp (fst a) (fst b)"
  let ?S = "\<lambda>a b :: string \<times> string. cmp (fst a) (fst b) \<le> 0"
  have total: "cmp a b \<le> 0 \<or> cmp b a \<le> 0" if "a \<in> fst ` set p1" "b \<in> fst ` set p1" for a b
    using assms(4) that unfolding ordersKeys_def by blast
  have antisym: "a = b" if "a \<in> fst ` set p1" "b \<in> fst ` set p1" "cmp a b \<le> 0" "cmp b a \<le> 0" for a b
    using assms(4) that unfolding ordersKeys_def by blast
  have trans: "cmp a c \<le> 0"
    if "a \<in> fst ` set p1" "b \<in> fst ` set p1" "c \<in> fst ` set p1" "cmp a b \<le> 0" "cmp b c \<le> 0" for a b c
    using assms(4) that unfolding ordersKeys_def by blast
  have s1: "sorted_wrt ?S (sort_by ?c p1)"
  proof (rule sorted_wrt_sort_by)
    fix x y assume "x \<in> set p1" "y \<in> set p1" "\<not> cmp (fst x) (fst y) \<le> 0"
    then show "cmp (fst y) (fst x) \<le> 0" using total [of "fst x" "fst y"] by auto
  next
    fix x y z assume "x \<in> set p1" "y \<in> set p1" "z \<in> set p1"
      "cmp (fst x) (fst y) \<le> 0" "cmp (fst y) (fst z) \<le> 0"
    then show "cmp (fst x) (fst z) \<le> 0" using trans [of "fst x" "fst y" "fst z"] by auto
  qed
  have s2: "sorted_wrt ?S (sort_by ?c p2)"
  proof (rule sorted_wrt_sort_by)
    fix x y assume "x \<in> set p2" "y \<in> set p2" "\<not> cmp (fst x) (fst y) \<le> 0"
    then show "cmp (fst y) (fst x) \<le> 0" using total [of "fst x" "fst y"] assms(1) by auto
  next
    fix x y z assume "x \<in> set p2" "y \<in> set p2" "z \<in> set p2"
      "cmp (fst x) (fst y) \<le> 0" "cmp (fst y) (fst z) \<le> 0"
    then show "cmp (fst x) (fst z) \<le> 0" using trans [of "fst x" "fst y" "fst z"] assms(1) by auto
  qed
  show ?thesis
  proof (rule sorted_wrt_set_unique [where S = ?S and f = fst])
    show "sorted_wrt ?S (sort_by ?c p1)" by (rule s1)
    show "sorted_wrt ?S (sort_by ?c p2)" by (rule s2)
    show "set (sort_by ?c p1) = set (sort_by ?c p2)" using assms(1) by (simp add: set_sort_by)
    show "distinct (map fst (sort_by ?c p1))" using assms(2) by (simp add: distinct_map_sort_by)
    show "distinct (map fst (sort_by ?c p2))" using assms(3) by (simp add: distinct_map_sort_by)
  next
    fix x y assume "x \<in> set (sort_by ?c p1)" "y \<in> set (sort_by ?c p1)"
      "cmp (fst x) (fst y) \<le> 0" "cmp (fst y) (fst x) \<le> 0"
    then show "fst x = fst y" using antisym [of "fst x" "fst y"] by (auto simp: set_sort_by)
  qed
qed

text \<open>
  C10, amended. Two parameter objects with the same key/value pairs, whatever the order
  they were built in, get the same cache key, and so the same cache file, when the
  collation behind \<open>localeCompare\<close> orders the keys of the object: any two keys are
  comparable, coming before is transitive, and no two different keys compare as equal.
  The key is made from the pairs sorted by key; where the collation compares two different
  keys of the object as equal, the two orders can give different cache keys.
\<close>

theorem cache_key_order_independent:
  assumes "set p1 = set p2" and "distinct (map fst p1)" and "distinct (map fst p2)"
    and "ordersKeys (localeCompare pf) (fst ` set p1)"
  shows "cacheKeyOf pf p1 = cacheKeyOf pf p2
       \<and> getCacheFilePath pf (cacheKeyOf pf p1) = getCacheFilePath pf (cacheKeyOf pf p2)"
  using sort_params_unique [OF assms] by (simp add: cacheKeyOf_def)

lemma example_orders: "ordersKeys codeUnitCompare {''a'', ''b''}"
  by (simp add: ordersKeys_def codeUnitCompare_def)

lemma example_key_ab:
  "cacheKeyOf (example_platform premium_upstream) [(''a'', ''1''), (''b'', ''2'')]
     = ''alpha-vantage:'' @ JSON_stringify_pairs [(''a'', ''1''), (''b'', ''2'')]"
  by (simp add: cacheKeyOf_def sort_by_def example_platform_def codeUnitCompare_def)

lemma example_key_ba:
  "cacheKeyOf (example_platform premium_upstream) [(''b'', ''2''), (''a'', ''1'')]
     = ''alpha-vantage:'' @ JSON_stringify_pairs [(''a'', ''1''), (''b'', ''2'')]"
  by (simp add: cacheKeyOf_def sort_by_def example_platform_def codeUnitCompare_def)

theorem cache_key_order_independent_witness:
  "set [(''a'', ''1''), (''b'', ''2'')] = set [(''b'', ''2''), (''a'', ''1'')]
   \<and> distinct (map fst [(''a'', ''1''), (''b'', ''2'')])
   \<and> ordersKeys (localeCompare (example_platform premium_upstream)) {''a'', ''b''}
   \<and> cacheKeyOf (example_platform premium_upstream) [(''a'', ''1''), (''b'', ''2'')]
       = cacheKeyOf (example_platform premium_upstream) [(''b'', ''2''), (''a'', ''1'')]
   \<and> cacheKeyOf (example_platform premium_upstream) [(''b'', ''2''), (''a'', ''1'')]
       = ''alpha-vantage:'' @ JSON_stringify_pairs [(''a'', ''1''), (''b'', ''2'')]"
proof -
  have o: "ordersKeys (localeCompare (example_platform premium_upstream))
             (fst ` set [(''a'', ''1''), (''b'', ''2'')])"
    using example_orders by (simp add: example_platform_def)
  have h1: "set [(''a'', ''1''), (''b'', ''2'')] = set [(''b'', ''2''), (''a'', ''1''::string)]"
    by auto
  have h2: "distinct (map fst [(''a'', ''1''), (''b'', ''2''::string)])"
    and h3: "distinct (map fst [(''b'', ''2''), (''a'', ''1''::string)])"
    by simp_all
  have "cacheKeyOf (example_platform premium_upstream) [(''a'', ''1''), (''b'', ''2'')]
       = cacheKeyOf (example_platform premium_upstream) [(''b'', ''2''), (''a'', ''1'')]"
    using cache_key_order_independent [OF h1 h2 h3 o] by simp
  then show ?thesis
    using h1 h2 example_orders example_key_ba by (simp add: example_platform_def)
qed

lemma tied_keys_compare_equal:
  "ignoringControlCompare ''a'' [CHR ''a'', CHR 0x01] = 0
   \<and> ignoringControlCompare [CHR ''a'', CHR 0x01] ''a'' = 0"
  by (simp add: ignoringControlCompare_def isIgnoredControl_def codeUnitCompare_def)

lemma tied_key_forward:
  "cacheKeyOf tying_platform tied_params
     = ''alpha-vantage:'' @ JSON_stringify_pairs [(''a'', ''1''), ([CHR ''a'', CHR 0x01], ''2'')]"
  by (simp add: cacheKeyOf_def sort_by_def tying_platform_def example_platform_def tied_params_def
        ignoringControlCompare_def isIgnoredControl_def codeUnitCompare_def)

lemma tied_key_backward:
  "cacheKeyOf tying_platform (rev tied_params)
     = ''alpha-vantage:'' @ JSON_stringify_pairs [([CHR ''a'', CHR 0x01], ''2''), (''a'', ''1'')]"
  by (simp add: cacheKeyOf_def sort_by_def tying_platform_def example_platform_def tied_params_def
        ignoringControlCompare_def isIgnoredControl_def codeUnitCompare_def)

theorem cache_key_tie_counterexample:
  "set tied_params = set (rev tied_params)
   \<and> distinct (map fst tied_params)
   \<and> localeCompare tying_platform ''a'' [CHR ''a'', CHR 0x01] = 0
   \<and> cacheKeyOf tying_platform tied_params \<noteq> cacheKeyOf tying_platform (rev tied_params)"
proof -
  have "JSON_stringify_pairs [(''a'', ''1''), ([CHR ''a'', CHR 0x01], ''2'')]
          \<noteq> JSON_stringify_pairs [([CHR ''a'', CHR 0x01], ''2''), (''a'', ''1'')]"
    by (simp add: JSON_stringify_pairs_def quoteJSONString_def quoteChar_def)
  then show ?thesis
    using tied_keys_compare_equal
    by (simp add: tied_key_forward tied_key_backward)
       (simp add: tied_params_def tying_platform_def example_platform_def)
qed

subsection \<open>Mock fallback\<close>

lemma distinct_STOCK_TICKERS: "distinct STOCK_TICKERS"
  by (simp add: STOCK_TICKERS_def)

lemma table_lookup:
  assumes "distinct xs" and "i < length xs"
  shows "map_of (map (\<lambda>p. (fst p, f (fst p) (snd p))) (zip xs [0..<length xs])) (xs ! i)
           = Some (f (xs ! i) i)"
proof -
  let ?L = "map (\<lambda>p. (fst p, f (fst p) (snd p))) (zip xs [0..<length xs])"
  have keys: "map fst ?L = xs"
    by (simp add: comp_def)
  have "?L ! i = (xs ! i, f (xs ! i) i)"
    using assms(2) by simp
  moreover have "i < length ?L" using assms(2) by simp
  ultimately have "(xs ! i, f (xs ! i) i) \<in> set ?L"
    by (metis nth_mem)
  moreover have "distinct (map fst ?L)" using keys assms(1) by simp
  ultimately show ?thesis by simp
qed

lemma shouldUseMocks_ENV:
  "shouldUseMocks (ENV raw) \<longleftrightarrow>
     VITE_USE_MOCKS raw = Some ''true''
     \<or> (case VITE_ALPHAVANTAGE_API_KEY raw of None \<Rightarrow> True | Some k \<Rightarrow> trim k = [])"
  by (simp add: shouldUseMocks_def ENV_def split: option.splits)

text \<open>
  C8. In the browser application, when the use-mocks flag is the text \<open>true\<close> or no API
  credential is configured (the variable is unset, or blank once trimmed), the overview
  and the daily-series query functions return, for every ticker of the list, the mock
  data made for that ticker and its index, and leave the browser as it was: no request is
  made and no warning is logged.
\<close>

theorem mocks_used_without_network:
  assumes "VITE_USE_MOCKS raw = Some ''true''
           \<or> (case VITE_ALPHAVANTAGE_API_KEY raw of None \<Rightarrow> True | Some k \<Rightarrow> trim k = [])"
    and "ticker \<in> set STOCK_TICKERS"
  shows "\<exists>i < length STOCK_TICKERS. STOCK_TICKERS ! i = ticker
           \<and> companyOverviewQueryFn (ENV raw) up ticker b = (Some (createCompanyOverview ticker i), b)
           \<and> dailySeriesQueryFn (ENV raw) up ticker b = (Some (createTimeSeries ticker i), b)"
proof -
  obtain i where i: "i < length STOCK_TICKERS" "STOCK_TICKERS ! i = ticker"
    using assms(2) by (auto simp: in_set_conv_nth)
  have m: "shouldUseMocks (ENV raw)"
    using assms(1) by (simp add: shouldUseMocks_ENV)
  have o: "getMockOverview ticker = Some (createCompanyOverview ticker i)"
    using table_lookup [OF distinct_STOCK_TICKERS i(1), of createCompanyOverview] i(2)
    by (simp add: getMockOverview_def companyOverviewBySymbol_def)
  have s: "getMockDailySeries ticker = Some (createTimeSeries ticker i)"
    using table_lookup [OF distinct_STOCK_TICKERS i(1), of createTimeSeries] i(2)
    by (simp add: getMockDailySeries_def timeSeriesDailyBySymbol_def)
  have "companyOverviewQueryFn (ENV raw) up ticker b = (Some (createCompanyOverview ticker i), b)"
    using m o by (simp add: companyOverviewQueryFn_def withMockFallback_def)
  moreover have "dailySeriesQueryFn (ENV raw) up ticker b = (Some (createTimeSeries ticker i), b)"
    using m s by (simp add: dailySeriesQueryFn_def withMockFallback_def)
  ultimately show ?thesis using i by blast
qed

lemma crwv_overview:
  "createCompanyOverview ''CRWV'' 0
     = \<lparr>CompanyOverviewInput.symbol = ''CRWV'', assetType = Some ''Common Stock'',
         name = Some ''CRWV Holdings'',
         description = Some ''CRWV is a mock company focused on technology solutions.'',
         exchange = Some ''NASDAQ'', sector = Some ''Technology'', industry = None,
         marketCapitalization = Some ''1000000000''\<rparr>"
  by (simp add: createCompanyOverview_def sectors_def industries_def toLowerCase_def
        toLowerCaseChar_def string_of_nat.simps char_of_eq_iff)

lemma crwv_series_newest:
  "hd (createTimeSeries ''CRWV'' 0)
     = \<lparr>DailyPrice.date = ''2024-01-10'', close = Num (233 / 4), volume = Num 362500\<rparr>"
  by (simp add: createTimeSeries_def januaryDate_def string_of_nat.simps char_of_eq_iff upt_rec
        hd_rev)

lemma crwv_query_overview:
  "companyOverviewQueryFn (ENV no_credential) unreachable_upstream ''CRWV'' empty_browser
     = (Some (createCompanyOverview ''CRWV'' 0), empty_browser)"
  by (simp add: companyOverviewQueryFn_def withMockFallback_def shouldUseMocks_def ENV_def
        no_credential_def getMockOverview_def companyOverviewBySymbol_def STOCK_TICKERS_def upt_rec)

lemma crwv_query_series:
  "dailySeriesQueryFn (ENV no_credential) unreachable_upstream ''CRWV'' empty_browser
     = (Some (createTimeSeries ''CRWV'' 0), empty_browser)"
  by (simp add: dailySeriesQueryFn_def withMockFallback_def shouldUseMocks_def ENV_def
        no_credential_def getMockDailySeries_def timeSeriesDailyBySymbol_def STOCK_TICKERS_def
        upt_rec)

theorem mocks_used_without_network_witness:
  "(case VITE_ALPHAVANTAGE_API_KEY no_credential of None \<Rightarrow> True | Some k \<Rightarrow> trim k = [])
   \<and> ''CRWV'' \<in> set STOCK_TICKERS
   \<and> companyOverviewQueryFn (ENV no_credential) unreachable_upstream ''CRWV'' empty_browser
     = (Some \<lparr>CompanyOverviewInput.symbol = ''CRWV'', assetType = Some ''Common Stock'',
               name = Some ''CRWV Holdings'',
               description = Some ''CRWV is a mock company focused on technology solutions.'',
               exchange = Some ''NASDAQ'', sector = Some ''Technology'', industry = None,
               marketCapitalization = Some ''1000000000''\<rparr>, empty_browser)
   \<and> dailySeriesQueryFn (ENV no_credential) unreachable_upstream ''CRWV'' empty_browser
     = (Some (createTimeSeries ''CRWV'' 0), empty_browser)
   \<and> hd (createTimeSeries ''CRWV'' 0)
     = \<lparr>DailyPrice.date = ''2024-01-10'', close = Num (233 / 4), volume = Num 362500\<rparr>"
proof -
  have k: "(case VITE_ALPHAVANTAGE_API_KEY no_credential of None \<Rightarrow> True | Some k \<Rightarrow> trim k = [])"
    by (simp add: no_credential_def)
  have t: "''CRWV'' \<in> set STOCK_TICKERS"
    by (simp add: STOCK_TICKERS_def)
  have "\<exists>i < length STOCK_TICKERS. STOCK_TICKERS ! i = ''CRWV''
          \<and> companyOverviewQueryFn (ENV no_credential) unreachable_upstream ''CRWV'' empty_browser
                = (Some (createCompanyOverview ''CRWV'' i), empty_browser)
          \<and> dailySeriesQueryFn (ENV no_credential) unreachable_upstream ''CRWV'' empty_browser
                = (Some (createTimeSeries ''CRWV'' i), empty_browser)"
    by (rule mocks_used_without_network) (use k t in simp_all)
  then show ?thesis
    using k t crwv_query_overview crwv_query_series crwv_overview crwv_series_newest by simp
qed

subsection \<open>Page-level fetch\<close>

text \<open>
  C9. The page-level fetch runs the three getters whatever each of them returns, and each
  section of its result depends on the outcome of its own getter only: a fulfilled quote,
  series or overview is carried with its cache time; a rejected overview is absent with
  its error in \<open>overviewError\<close>; a rejected quote is absent and a rejected series is the
  empty list, with the error in \<open>error\<close> (the error of the quote when both are
  rejected). The interleaving of the three getters is not modelled.
\<close>

theorem page_fetch_isolates_failures:
  assumes "getQ w = (qr, w1)" and "getS w1 = (sr, w2)" and "getO w2 = (ovr, w3)"
  shows "snd (fetchStockData getQ getS getO w) = w3
    \<and> (\<forall>q. qr = Inr q \<longrightarrow>
          sd_quote (fst (fetchStockData getQ getS getO w)) = Some (data q)
          \<and> sd_quoteCachedAt (fst (fetchStockData getQ getS getO w)) = Some (cachedAt q))
    \<and> (\<forall>s. sr = Inr s \<longrightarrow>
          sd_series (fst (fetchStockData getQ getS getO w)) = data s
          \<and> sd_seriesCachedAt (fst (fetchStockData getQ getS getO w)) = Some (cachedAt s))
    \<and> (\<forall>v. ovr = Inr v \<longrightarrow>
          sd_overview (fst (fetchStockData getQ getS getO w)) = Some (data v)
          \<and> sd_overviewCachedAt (fst (fetchStockData getQ getS getO w)) = Some (cachedAt v)
          \<and> sd_overviewError (fst (fetchStockData getQ getS getO w)) = None)
    \<and> (\<forall>e. ovr = Inl e \<longrightarrow>
          sd_overview (fst (fetchStockData getQ getS getO w)) = None
          \<and> sd_overviewCachedAt (fst (fetchStockData getQ getS getO w)) = None
          \<and> sd_overviewError (fst (fetchStockData getQ getS getO w)) = Some e)
    \<and> (\<forall>e. qr = Inl e \<longrightarrow>
          sd_quote (fst (fetchStockData getQ getS getO w)) = None
          \<and> sd_error (fst (fetchStockData getQ getS getO w)) = Some e)
    \<and> (\<forall>e. sr = Inl e \<longrightarrow>
          sd_series (fst (fetchStockData getQ getS getO w)) = []
          \<and> sd_seriesCachedAt (fst (fetchStockData getQ getS getO w)) = None
          \<and> (\<forall>q. qr = Inr q \<longrightarrow> sd_error (fst (fetchStockData getQ getS getO w)) = Some e))
    \<and> (\<forall>q s. qr = Inr q \<and> sr = Inr s \<longrightarrow>
          sd_error (fst (fetchStockData getQ getS getO w)) = None)"
proof -
  have eq: "fetchStockData getQ getS getO w =
     (\<lparr>sd_quote = (case qr of Inr v \<Rightarrow> Some (data v) | Inl r \<Rightarrow> None),
       sd_quoteCachedAt = (case qr of Inr v \<Rightarrow> Some (cachedAt v) | Inl r \<Rightarrow> None),
       sd_series = (case sr of Inr v \<Rightarrow> data v | Inl r \<Rightarrow> []),
       sd_seriesCachedAt = (case sr of Inr v \<Rightarrow> Some (cachedAt v) | Inl r \<Rightarrow> None),
       sd_overview = (case ovr of Inr v \<Rightarrow> Some (data v) | Inl r \<Rightarrow> None),
       sd_overviewCachedAt = (case ovr of Inr v \<Rightarrow> Some (cachedAt v) | Inl r \<Rightarrow> None),
       sd_overviewError = (case ovr of Inl r \<Rightarrow> Some r | Inr v \<Rightarrow> None),
       sd_error = (case qr of
                     Inl r \<Rightarrow> Some r
                   | Inr v \<Rightarrow> (case sr of Inl r \<Rightarrow> Some r | Inr v' \<Rightarrow> None))\<rparr>, w3)"
    using assms by (simp add: fetchStockData_def Let_def split: sum.splits)
  show ?thesis
    unfolding eq by (cases qr; cases sr; cases ovr) simp_all
qed

lemmas scenario_eval = scenario_b_platform_def scenario_b_upstream_def scenario_b_after_quote_def
  scenario_b_after_series_def getGlobalQuoteInternal_def getDailySeriesInternal_def
  getCompanyOverviewInternal_def fetchDailySeriesPayload_def normalizeGlobalQuote_def
  requireDate_def example_quote_fields_def example_two_days_def string_of_nat.simps
  char_of_eq_iff

lemma scenario_b_quote:
  "fst (getGlobalQuoteInternal scenario_b_platform ''GD'' empty_world)
     = Inr \<lparr>data =
              \<lparr>StockQuote.symbol = ''GD'', StockQuote.open = Num 250,
               StockQuote.high = Num (511 / 2), StockQuote.low = Num (2481 / 10),
               price = Num (2523 / 10), previousClose = Num 249, change = Num (33 / 10),
               changePercent = Num (13253 / 10000), latestTradingDay = ''2024-01-05'',
               StockQuote.volume = Some (Num 1234567)\<rparr>,
            cachedAt = ISO 1700000000000\<rparr>"
  by (simp add: scenario_eval fetch_eval daily_eval js_eval)

lemma scenario_b_series:
  "fst (getDailySeriesInternal scenario_b_platform ''GD'' scenario_b_after_quote)
     = Inr \<lparr>data =
              [\<lparr>DailySeriesPoint.date = ''2024-01-01'', open = Num 10, high = Num (25 / 2),
                low = Num (19 / 2), close = Num 5, volume = Some (Num 10)\<rparr>,
               \<lparr>DailySeriesPoint.date = ''2024-01-02'', open = Num 10, high = Num (25 / 2),
                low = Num (19 / 2), close = Num 7, volume = Some (Num 20)\<rparr>],
            cachedAt = ISO 1700000000000\<rparr>"
  by (simp add: scenario_eval fetch_eval daily_eval js_eval)

lemma scenario_b_overview:
  "fst (getCompanyOverviewInternal scenario_b_platform ''GD'' scenario_b_after_series)
     = Inl (AlphaVantageError ''Alpha Vantage responded with 500: Internal Server Error'')"
  by (simp add: scenario_eval fetch_eval daily_eval js_eval)

theorem page_fetch_isolates_failures_witness:
  "sd_quote (fst (fetchStockData (getGlobalQuoteInternal scenario_b_platform ''GD'')
                    (getDailySeriesInternal scenario_b_platform ''GD'')
                    (getCompanyOverviewInternal scenario_b_platform ''GD'') empty_world))
     = Some \<lparr>StockQuote.symbol = ''GD'', StockQuote.open = Num 250,
               StockQuote.high = Num (511 / 2), StockQuote.low = Num (2481 / 10),
               price = Num (2523 / 10), previousClose = Num 249, change = Num (33 / 10),
               changePercent = Num (13253 / 10000), latestTradingDay = ''2024-01-05'',
               StockQuote.volume = Some (Num 1234567)\<rparr>
   \<and> map DailySeriesPoint.date
         (sd_series (fst (fetchStockData (getGlobalQuoteInternal scenario_b_platform ''GD'')
                            (getDailySeriesInternal scenario_b_platform ''GD'')
                            (getCompanyOverviewInternal scenario_b_platform ''GD'') empty_world)))
     = [''2024-01-01'', ''2024-01-02'']
   \<and> sd_overview (fst (fetchStockData (getGlobalQuoteInternal scenario_b_platform ''GD'')
                          (getDailySeriesInternal scenario_b_platform ''GD'')
                          (getCompanyOverviewInternal scenario_b_platform ''GD'') empty_world))
     = None
   \<and> sd_overviewError (fst (fetchStockData (getGlobalQuoteInternal scenario_b_platform ''GD'')
                               (getDailySeriesInternal scenario_b_platform ''GD'')
                               (getCompanyOverviewInternal scenario_b_platform ''GD'') empty_world))
     = Some (AlphaVantageError ''Alpha Vantage responded with 500: Internal Server Error'')
   \<and> sd_error (fst (fetchStockData (getGlobalQuoteInternal scenario_b_platform ''GD'')
                       (getDailySeriesInternal scenario_b_platform ''GD'')
                       (getCompanyOverviewInternal scenario_b_platform ''GD'') empty_world))
     = None"
proof -
  have q: "getGlobalQuoteInternal scenario_b_platform ''GD'' empty_world
             = (fst (getGlobalQuoteInternal scenario_b_platform ''GD'' empty_world),
                scenario_b_after_quote)"
    by (simp add: scenario_b_after_quote_def)
  have s: "getDailySeriesInternal scenario_b_platform ''GD'' scenario_b_after_quote
             = (fst (getDailySeriesInternal scenario_b_platform ''GD'' scenario_b_after_quote),
                scenario_b_after_series)"
    by (simp add: scenario_b_after_series_def)
  have v: "getCompanyOverviewInternal scenario_b_platform ''GD'' scenario_b_after_series
             = (fst (getCompanyOverviewInternal scenario_b_platform ''GD'' scenario_b_after_series),
                snd (getCompanyOverviewInternal scenario_b_platform ''GD'' scenario_b_after_series))"
    by simp
  show ?thesis
    using page_fetch_isolates_failures
            [where getQ = "getGlobalQuoteInternal scenario_b_platform ''GD''"
               and getS = "getDailySeriesInternal scenario_b_platform ''GD''"
               and getO = "getCompanyOverviewInternal scenario_b_platform ''GD''"
               and w = empty_world, OF q s v]
          scenario_b_quote scenario_b_series scenario_b_overview
    by simp
qed

end
